theory Spec2Isabelle
  imports Main "HOL-Library.Word"
begin

unbundle bit_operations_syntax

section \<open>Go values\<close>

text \<open>
  The package is Go. A \<^verbatim>\<open>[]byte\<close> and a \<^verbatim>\<open>string\<close> are both byte sequences and are
  modelled as lists of 8-bit words. Go's \<^verbatim>\<open>int\<close> holds lengths and offsets only, and is
  modelled as the mathematical \<^typ>\<open>int\<close>; the conversions to \<^verbatim>\<open>int32\<close>,
  \<^verbatim>\<open>uint16\<close> and \<^verbatim>\<open>byte\<close> that the source writes are modelled as truncations to
  words of that width, read back with \<^const>\<open>sint\<close> (signed) or \<^const>\<open>uint\<close>.

  A function either returns or stops with a run-time panic (an index or slice bound out of
  range, or an explicit \<^verbatim>\<open>panic\<close>): \<open>Returns v\<close> or \<open>Panics\<close>. A Go \<^verbatim>\<open>error\<close> result is
  an optional error value, \<open>None\<close> being \<^verbatim>\<open>nil\<close>. Several results are a tuple, as in Go.
  A method with a pointer receiver that assigns to the receiver takes the macaroon and
  returns the updated macaroon first in its result.
\<close>

type_synonym byte = "8 word"
type_synonym bytes = "byte list"

datatype 'a outcome = Returns 'a | Panics

text \<open>
  The slice expression \<^verbatim>\<open>s[lo:hi]\<close>. The model identifies a slice with its visible
  elements, so its capacity is its length: an expression that reaches past the length is the
  out-of-range panic. (Go allows \<open>hi\<close> up to the capacity; no macaroon built through the
  package's functions holds a packet that ends past the length of its buffer.)
\<close>

definition go_slice :: "'a list \<Rightarrow> int \<Rightarrow> int \<Rightarrow> 'a list outcome" where
  "go_slice s lo hi =
     (if 0 \<le> lo \<and> lo \<le> hi \<and> hi \<le> int (length s)
      then Returns (take (nat (hi - lo)) (drop (nat lo) s))
      else Panics)"

text \<open>The index expression \<^verbatim>\<open>s[i]\<close>.\<close>

definition go_index :: "'a list \<Rightarrow> int \<Rightarrow> 'a outcome" where
  "go_index s i = (if 0 \<le> i \<and> i < int (length s) then Returns (s ! nat i) else Panics)"

text \<open>
  An error is built by \<^verbatim>\<open>fmt.Errorf\<close> from a format string and its arguments, which are
  kept as they are passed; a format without verbs is the message itself. The other
  constructors are the error values of \<^verbatim>\<open>encoding/hex\<close> and \<^verbatim>\<open>encoding/json\<close>.
\<close>

record packet =
  start :: "32 word"
  totalLen :: "16 word"
  headerLen' :: "16 word"

datatype go_error =
    Errorf string "fmt_arg list"
  | hex_ErrLength
  | hex_InvalidByteError byte
  | json_error string
and fmt_arg =
    ArgError go_error
  | ArgBytes bytes
  | ArgField byte
  | ArgPacket packet

type_synonym error = "go_error option"

section \<open>Packets (the packet file)\<close>

text \<open>
  \<^verbatim>\<open>type packet struct { start int32; totalLen uint16; headerLen uint16 }\<close> is the record
  above; the field \<open>headerLen\<close> is never assigned. \<open>packet0\<close> is the zero value
  \<^verbatim>\<open>packet{}\<close>.
\<close>

definition packet0 :: packet where
  "packet0 = \<lparr>start = 0, totalLen = 0, headerLen' = 0\<rparr>"

type_synonym field = byte

definition fieldInvalid :: field where "fieldInvalid = 0"
definition fieldLocation :: field where "fieldLocation = 1"
definition fieldIdentifier :: field where "fieldIdentifier = 2"
definition fieldSignature :: field where "fieldSignature = 3"
definition fieldCaveat :: field where "fieldCaveat = 4"
definition fieldVerificationId :: field where "fieldVerificationId = 5"

record Macaroon =
  data :: bytes
  location :: packet
  id' :: packet
  caveats :: packet
  sig :: bytes

text \<open>The zero value \<^verbatim>\<open>Macaroon{}\<close> (\<^verbatim>\<open>var m Macaroon\<close>).\<close>

definition Macaroon0 :: Macaroon where
  "Macaroon0 = \<lparr>data = [], location = packet0, id' = packet0, caveats = packet0, sig = []\<rparr>"

definition packet_len :: "packet \<Rightarrow> int" where
  "packet_len p = uint (totalLen p)"

definition headerLen :: "32 word" where
  "headerLen = 3"

definition dataBytes :: "Macaroon \<Rightarrow> packet \<Rightarrow> bytes outcome" where
  "dataBytes m p =
     (if totalLen p = 0 then Returns []
      else go_slice (data m) (sint (start p + headerLen)) (sint (start p + ucast (totalLen p))))"

definition dataStr :: "Macaroon \<Rightarrow> packet \<Rightarrow> bytes outcome" where
  "dataStr m p = dataBytes m p"

definition packetBytes :: "Macaroon \<Rightarrow> packet \<Rightarrow> bytes outcome" where
  "packetBytes m p = go_slice (data m) (sint (start p)) (sint (start p + ucast (totalLen p)))"

definition fieldNum :: "Macaroon \<Rightarrow> packet \<Rightarrow> field outcome" where
  "fieldNum m p =
     (if totalLen p = 0 then Returns fieldInvalid
      else go_index (data m) (sint (start p + 2)))"

text \<open>\<^verbatim>\<open>binary.LittleEndian.Uint16\<close> and \<^verbatim>\<open>PutUint16\<close>.\<close>

definition LittleEndian_Uint16 :: "bytes \<Rightarrow> 16 word outcome" where
  "LittleEndian_Uint16 b =
     (if length b < 2 then Panics
      else Returns (ucast (b ! 0) OR push_bit 8 (ucast (b ! 1))))"

definition LittleEndian_PutUint16 :: "16 word \<Rightarrow> bytes" where
  "LittleEndian_PutUint16 v = [ucast v, ucast (drop_bit 8 v)]"

definition parseSize :: "bytes \<Rightarrow> int outcome" where
  "parseSize dat = (case LittleEndian_Uint16 dat of Panics \<Rightarrow> Panics | Returns v \<Rightarrow> Returns (uint v))"

definition appendSize :: "bytes \<Rightarrow> int \<Rightarrow> bytes" where
  "appendSize dat sz = dat @ LittleEndian_PutUint16 (word_of_int sz)"

text \<open>
  \<open>parsePacket\<close>: \<^verbatim>\<open>m.data[start:]\<close> panics unless \<open>0 \<le> start \<le> len(m.data)\<close>, and
  \<^verbatim>\<open>data = data[2:plen]\<close>, whose result is not used, panics when \<open>plen < 2\<close>.
\<close>

definition parsePacket :: "Macaroon \<Rightarrow> int \<Rightarrow> (packet \<times> error) outcome" where
  "parsePacket m start_ix =
     (case go_slice (data m) start_ix (int (length (data m))) of
        Panics \<Rightarrow> Panics
      | Returns dat \<Rightarrow>
          if int (length dat) < 6 then Returns (packet0, Some (Errorf ''packet too short'' []))
          else (case parseSize dat of
                  Panics \<Rightarrow> Panics
                | Returns plen \<Rightarrow>
                    if plen > int (length dat)
                    then Returns (packet0, Some (Errorf ''packet size too big'' []))
                    else (case go_slice dat 2 plen of
                            Panics \<Rightarrow> Panics
                          | Returns dat' \<Rightarrow>
                              Returns (\<lparr>start = word_of_int start_ix,
                                        totalLen = word_of_int plen,
                                        headerLen' = 0\<rparr>, None))))"

definition maxPacketLen :: int where
  "maxPacketLen = 0xffff"

definition rawAppendPacket :: "bytes \<Rightarrow> field \<Rightarrow> bytes \<Rightarrow> bytes \<times> packet \<times> bool" where
  "rawAppendPacket buf f dat =
     (let plen = 2 + 1 + int (length dat) in
      if plen > maxPacketLen then ([], packet0, False)
      else (let s = \<lparr>start = word_of_int (int (length buf)),
                      totalLen = word_of_int plen,
                      headerLen' = 0\<rparr>;
                buf1 = appendSize buf plen;
                buf2 = buf1 @ [f];
                buf3 = buf2 @ dat
            in (buf3, s, True)))"

definition appendPacket :: "Macaroon \<Rightarrow> field \<Rightarrow> bytes \<Rightarrow> Macaroon \<times> packet \<times> bool" where
  "appendPacket m f dat =
     (case rawAppendPacket (data m) f dat of
        (mdata, p, ok) \<Rightarrow>
          if \<not> ok then (m, p, False)
          else (m\<lparr>data := mdata\<rparr>, p, True))"


section \<open>Hash primitives\<close>

subsection \<open>SHA-256 (\<^verbatim>\<open>crypto/sha256\<close>, FIPS 180-4)\<close>

text \<open>
  The standard library's SHA-256, written out so that signatures can be computed. A 32-bit
  word is an \<^typ>\<open>int\<close> in \<open>0 ..< 2^32\<close> with the reduction modulo \<open>2^32\<close> written at
  every addition.
\<close>

definition add32 :: "int \<Rightarrow> int \<Rightarrow> int" where
  "add32 x y = (x + y) mod 4294967296"

definition rotr32 :: "nat \<Rightarrow> int \<Rightarrow> int" where
  "rotr32 n x = x div 2 ^ n + (x mod 2 ^ n) * 2 ^ (32 - n)"

definition shr32 :: "nat \<Rightarrow> int \<Rightarrow> int" where
  "shr32 n x = x div 2 ^ n"

definition not32 :: "int \<Rightarrow> int" where
  "not32 x = 4294967295 - x"

definition sha_ch :: "int \<Rightarrow> int \<Rightarrow> int \<Rightarrow> int" where
  "sha_ch x y z = (x AND y) XOR (not32 x AND z)"

definition sha_maj :: "int \<Rightarrow> int \<Rightarrow> int \<Rightarrow> int" where
  "sha_maj x y z = (x AND y) XOR (x AND z) XOR (y AND z)"

definition big_sigma0 :: "int \<Rightarrow> int" where
  "big_sigma0 x = rotr32 2 x XOR rotr32 13 x XOR rotr32 22 x"

definition big_sigma1 :: "int \<Rightarrow> int" where
  "big_sigma1 x = rotr32 6 x XOR rotr32 11 x XOR rotr32 25 x"

definition small_sigma0 :: "int \<Rightarrow> int" where
  "small_sigma0 x = rotr32 7 x XOR rotr32 18 x XOR shr32 3 x"

definition small_sigma1 :: "int \<Rightarrow> int" where
  "small_sigma1 x = rotr32 17 x XOR rotr32 19 x XOR shr32 10 x"

definition sha256_K :: "int list" where
  "sha256_K =
    [0x428A2F98, 0x71374491, 0xB5C0FBCF, 0xE9B5DBA5, 0x3956C25B, 0x59F111F1, 0x923F82A4,
     0xAB1C5ED5, 0xD807AA98, 0x12835B01, 0x243185BE, 0x550C7DC3, 0x72BE5D74, 0x80DEB1FE,
     0x9BDC06A7, 0xC19BF174, 0xE49B69C1, 0xEFBE4786, 0x0FC19DC6, 0x240CA1CC, 0x2DE92C6F,
     0x4A7484AA, 0x5CB0A9DC, 0x76F988DA, 0x983E5152, 0xA831C66D, 0xB00327C8, 0xBF597FC7,
     0xC6E00BF3, 0xD5A79147, 0x06CA6351, 0x14292967, 0x27B70A85, 0x2E1B2138, 0x4D2C6DFC,
     0x53380D13, 0x650A7354, 0x766A0ABB, 0x81C2C92E, 0x92722C85, 0xA2BFE8A1, 0xA81A664B,
     0xC24B8B70, 0xC76C51A3, 0xD192E819, 0xD6990624, 0xF40E3585, 0x106AA070, 0x19A4C116,
     0x1E376C08, 0x2748774C, 0x34B0BCB5, 0x391C0CB3, 0x4ED8AA4A, 0x5B9CCA4F, 0x682E6FF3,
     0x748F82EE, 0x78A5636F, 0x84C87814, 0x8CC70208, 0x90BEFFFA, 0xA4506CEB, 0xBEF9A3F7,
     0xC67178F2]"

text \<open>
  The message schedule: \<open>win\<close> holds the sixteen most recent schedule words, oldest first;
  each step appends the next word and drops the oldest.
\<close>

fun sha_schedule :: "nat \<Rightarrow> int list \<Rightarrow> int list" where
  "sha_schedule 0 win = []"
| "sha_schedule (Suc n) win =
     (let w = add32 (add32 (small_sigma1 (win ! 14)) (win ! 9))
                    (add32 (small_sigma0 (win ! 1)) (win ! 0))
      in w # sha_schedule n (tl win @ [w]))"

type_synonym sha_state = "int \<times> int \<times> int \<times> int \<times> int \<times> int \<times> int \<times> int"

fun sha_round :: "sha_state \<Rightarrow> int \<times> int \<Rightarrow> sha_state" where
  "sha_round (a, b, c, d, e, f, g, h) (k, w) =
     (let t1 = add32 (add32 (add32 h (big_sigma1 e)) (add32 (sha_ch e f g) k)) w;
          t2 = add32 (big_sigma0 a) (sha_maj a b c)
      in (add32 t1 t2, a, b, c, add32 d t1, e, f, g))"

fun sha_add :: "sha_state \<Rightarrow> sha_state \<Rightarrow> sha_state" where
  "sha_add (a, b, c, d, e, f, g, h) (a2, b2, c2, d2, e2, f2, g2, h2) =
     (add32 a a2, add32 b b2, add32 c c2, add32 d d2,
      add32 e e2, add32 f f2, add32 g g2, add32 h h2)"

definition sha_compress :: "sha_state \<Rightarrow> int list \<Rightarrow> sha_state" where
  "sha_compress st blk =
     sha_add st (foldl sha_round st (zip sha256_K (blk @ sha_schedule 48 blk)))"

definition be32 :: "byte \<Rightarrow> byte \<Rightarrow> byte \<Rightarrow> byte \<Rightarrow> int" where
  "be32 a b c d = ((uint a * 256 + uint b) * 256 + uint c) * 256 + uint d"

fun sha_words :: "bytes \<Rightarrow> int list" where
  "sha_words (a # b # c # d # r) = be32 a b c d # sha_words r"
| "sha_words r = []"

definition be32_bytes :: "int \<Rightarrow> bytes" where
  "be32_bytes w =
     [word_of_int (w div 16777216), word_of_int (w div 65536), word_of_int (w div 256),
      word_of_int w]"

definition be64_bytes :: "int \<Rightarrow> bytes" where
  "be64_bytes n = be32_bytes (n div 4294967296 mod 4294967296) @ be32_bytes (n mod 4294967296)"

definition sha_pad :: "bytes \<Rightarrow> bytes" where
  "sha_pad msg =
     (let l = length msg
      in msg @ [0x80] @ replicate ((119 - l mod 64) mod 64) 0 @ be64_bytes (8 * int l))"

function sha_blocks :: "sha_state \<Rightarrow> bytes \<Rightarrow> sha_state" where
  "sha_blocks st bs =
     (if length bs < 64 then st
      else sha_blocks (sha_compress st (sha_words (take 64 bs))) (drop 64 bs))"
  by pat_completeness auto
termination
  by (relation "measure (\<lambda>(st, bs). length bs)") auto

declare sha_blocks.simps [simp del]

definition sha256_init :: sha_state where
  "sha256_init =
     (0x6A09E667, 0xBB67AE85, 0x3C6EF372, 0xA54FF53A,
      0x510E527F, 0x9B05688C, 0x1F83D9AB, 0x5BE0CD19)"

fun sha_output :: "sha_state \<Rightarrow> bytes" where
  "sha_output (a, b, c, d, e, f, g, h) =
     be32_bytes a @ be32_bytes b @ be32_bytes c @ be32_bytes d @
     be32_bytes e @ be32_bytes f @ be32_bytes g @ be32_bytes h"

definition sha256 :: "bytes \<Rightarrow> bytes" where
  "sha256 msg = sha_output (sha_blocks sha256_init (sha_pad msg))"

text \<open>
  The \<^verbatim>\<open>hash.Hash\<close> returned by \<^verbatim>\<open>sha256.New()\<close>: its state is the bytes written so
  far; \<^verbatim>\<open>Sum(b)\<close> appends the digest of them to \<open>b\<close>.
\<close>

definition sha256_New :: bytes where
  "sha256_New = []"

definition sha256_Write :: "bytes \<Rightarrow> bytes \<Rightarrow> bytes" where
  "sha256_Write h p = h @ p"

definition sha256_Sum :: "bytes \<Rightarrow> bytes \<Rightarrow> bytes" where
  "sha256_Sum h b = b @ sha256 h"

subsection \<open>HMAC (\<^verbatim>\<open>crypto/hmac\<close>, RFC 2104) and the keyed hash\<close>

definition hmac_key_block :: "bytes \<Rightarrow> bytes" where
  "hmac_key_block k =
     (let k1 = (if length k > 64 then sha256 k else k)
      in k1 @ replicate (64 - length k1) 0)"

definition hmac_sha256 :: "bytes \<Rightarrow> bytes \<Rightarrow> bytes" where
  "hmac_sha256 k msg =
     (let kb = hmac_key_block k;
          inner = sha256 (map (\<lambda>b. b XOR 0x36) kb @ msg)
      in sha256 (map (\<lambda>b. b XOR 0x5c) kb @ inner))"

text \<open>
  Modelled from the spec: \<open>keyedHash\<close> and \<open>keyedHasher\<close> are called by the macaroon file
  but their definitions are not among the source files. The spec (4.2) gives them:
  \<open>keyed_hash(key, message)\<close> is HMAC-SHA-256, 32 bytes, and \<open>keyed_hasher(key)\<close> is the
  incremental variant that is fed chunks before finalizing. The hasher's state is the key
  and the bytes written so far.
\<close>

definition keyedHasher :: "bytes \<Rightarrow> bytes \<times> bytes" where
  "keyedHasher k = (k, [])"

definition hasher_Write :: "bytes \<times> bytes \<Rightarrow> bytes \<Rightarrow> bytes \<times> bytes" where
  "hasher_Write h p = (fst h, snd h @ p)"

definition hasher_Sum :: "bytes \<times> bytes \<Rightarrow> bytes \<Rightarrow> bytes" where
  "hasher_Sum h b = b @ hmac_sha256 (fst h) (snd h)"

definition keyedHash :: "bytes \<Rightarrow> bytes \<Rightarrow> bytes" where
  "keyedHash k text = hasher_Sum (hasher_Write (keyedHasher k) text) []"

text \<open>
  \<^verbatim>\<open>hmac.Equal\<close> is \<^verbatim>\<open>subtle.ConstantTimeCompare(a, b) == 1\<close>: unequal lengths give 0;
  otherwise the loop ORs together the XOR of every pair of bytes and the result is 1 when
  that accumulator is 0.
\<close>

definition ConstantTimeCompare :: "bytes \<Rightarrow> bytes \<Rightarrow> int" where
  "ConstantTimeCompare x y =
     (if length x \<noteq> length y then 0
      else if foldl (\<lambda>v (a, b). v OR (a XOR b)) (0 :: byte) (zip x y) = 0 then 1 else 0)"

definition hmac_Equal :: "bytes \<Rightarrow> bytes \<Rightarrow> bool" where
  "hmac_Equal a b = (ConstantTimeCompare a b = 1)"

text \<open>\<^verbatim>\<open>bytes.Equal\<close> compares contents; a nil and an empty slice are equal.\<close>

definition bytes_Equal :: "bytes \<Rightarrow> bytes \<Rightarrow> bool" where
  "bytes_Equal a b = (a = b)"


section \<open>Macaroons (the macaroon file)\<close>

definition init :: "Macaroon \<Rightarrow> bytes \<Rightarrow> bytes \<Rightarrow> Macaroon \<times> error" where
  "init m ident loc =
     (case appendPacket m fieldLocation loc of
        (m1, p1, ok1) \<Rightarrow>
          (let m2 = m1\<lparr>location := p1\<rparr> in
           if \<not> ok1 then (m2, Some (Errorf ''macaroon location too big'' []))
           else (case appendPacket m2 fieldIdentifier ident of
                   (m3, p2, ok2) \<Rightarrow>
                     (let m4 = m3\<lparr>id' := p2\<rparr> in
                      if \<not> ok2 then (m4, Some (Errorf ''macaroon identifier too big'' []))
                      else (m4, None)))))"

text \<open>\<open>New\<close> returns \<^verbatim>\<open>(nil, err)\<close> or \<^verbatim>\<open>(&m, nil)\<close>.\<close>

definition New :: "bytes \<Rightarrow> bytes \<Rightarrow> bytes \<Rightarrow> (Macaroon option \<times> error) outcome" where
  "New rootKey ident loc =
     (case init Macaroon0 ident loc of
        (m, Some err) \<Rightarrow> Returns (None, Some err)
      | (m, None) \<Rightarrow>
          (case dataBytes m (id' m) of
             Panics \<Rightarrow> Panics
           | Returns idb \<Rightarrow> Returns (Some (m\<lparr>sig := keyedHash rootKey idb\<rparr>), None)))"

definition Location :: "Macaroon \<Rightarrow> bytes outcome" where
  "Location m = dataStr m (location m)"

definition Id' :: "Macaroon \<Rightarrow> bytes outcome" where
  "Id' m = dataStr m (id' m)"

definition caveatsRaw :: "Macaroon \<Rightarrow> bytes outcome" where
  "caveatsRaw m = dataBytes m (caveats m)"

definition Signature :: "Macaroon \<Rightarrow> bytes" where
  "Signature m = [] @ sig m"

subsection \<open>The caveat payload (\<open>MarshalCaveats\<close>, \<open>valToBytes\<close>)\<close>

text \<open>
  \<open>MarshalCaveats\<close> walks the fields of a struct by reflection. The argument is modelled
  by what reflection sees: a struct is the list of its fields; a field is a nil pointer, a
  pointer to a value of some kind, or not a pointer. Anything that is not a struct makes
  \<^verbatim>\<open>NumField\<close> panic.
\<close>

datatype go_value =
    KInt | KUint
  | KBytes bytes | KSliceOther
  | KString bytes
  | KInt8 "8 word" | KInt16 "16 word" | KInt32 "32 word" | KInt64 "64 word"
  | KUint8 "8 word" | KUint16 "16 word" | KUint32 "32 word" | KUint64 "64 word"
  | KBool bool
  | KOther

datatype go_field = NilPtr | Ptr go_value | NonPtr

datatype go_interface = Struct "go_field list" | NotStruct

text \<open>\<^verbatim>\<open>binary.Write(buf, binary.LittleEndian, x)\<close> for a fixed-size integer of \<open>n\<close> bytes.\<close>

definition le_bytes :: "nat \<Rightarrow> 'a::len word \<Rightarrow> bytes" where
  "le_bytes n w = map (\<lambda>i. ucast (drop_bit (8 * i) w)) [0..<n]"

fun valToBytes :: "go_value \<Rightarrow> (bytes \<times> error) outcome" where
  "valToBytes KInt = Panics"
| "valToBytes KUint = Panics"
| "valToBytes (KBytes b) = Returns (b, None)"
| "valToBytes KSliceOther = Panics"
| "valToBytes (KString s) = Returns (s, None)"
| "valToBytes (KInt8 w) = Returns (le_bytes 1 w, None)"
| "valToBytes (KInt16 w) = Returns (le_bytes 2 w, None)"
| "valToBytes (KInt32 w) = Returns (le_bytes 4 w, None)"
| "valToBytes (KInt64 w) = Returns (le_bytes 8 w, None)"
| "valToBytes (KUint8 w) = Returns (le_bytes 1 w, None)"
| "valToBytes (KUint16 w) = Returns (le_bytes 2 w, None)"
| "valToBytes (KUint32 w) = Returns (le_bytes 4 w, None)"
| "valToBytes (KUint64 w) = Returns (le_bytes 8 w, None)"
| "valToBytes (KBool v) = Returns (if v then [1] else [0], None)"
| "valToBytes KOther = Panics"

text \<open>
  The loop of \<open>MarshalCaveats\<close> from field \<open>i\<close> on, \<open>out\<close> being the buffer so far. The
  field number and the size are written as one byte each: \<^verbatim>\<open>byte(uint8(i))\<close> and
  \<^verbatim>\<open>byte(len(data))\<close> truncate.
\<close>

fun MarshalCaveats_loop :: "nat \<Rightarrow> go_field list \<Rightarrow> bytes \<Rightarrow> (bytes \<times> error) outcome" where
  "MarshalCaveats_loop i [] out = Returns (out, None)"
| "MarshalCaveats_loop i (NilPtr # fs) out = MarshalCaveats_loop (Suc i) fs out"
| "MarshalCaveats_loop i (Ptr v # fs) out =
     (case valToBytes v of
        Panics \<Rightarrow> Panics
      | Returns (dat, Some err) \<Rightarrow> Returns ([], Some err)
      | Returns (dat, None) \<Rightarrow>
          MarshalCaveats_loop (Suc i) fs (out @ [of_nat i] @ [of_nat (length dat)] @ dat))"
| "MarshalCaveats_loop i (NonPtr # fs) out = Panics"

definition MarshalCaveats :: "go_interface \<Rightarrow> (bytes \<times> error) outcome" where
  "MarshalCaveats v =
     (case v of NotStruct \<Rightarrow> Panics | Struct fs \<Rightarrow> MarshalCaveats_loop 0 fs [])"

definition SetCaveats :: "Macaroon \<Rightarrow> go_interface \<Rightarrow> (Macaroon \<times> error) outcome" where
  "SetCaveats m v =
     (case MarshalCaveats v of
        Panics \<Rightarrow> Panics
      | Returns (cavData, err) \<Rightarrow>
          if err = None then
            (case appendPacket m fieldCaveat cavData of
               (m1, p, ok) \<Rightarrow>
                 (let m2 = m1\<lparr>caveats := p\<rparr> in
                  if ok then
                    (let h = keyedHasher (sig m2);
                         h1 = hasher_Write h cavData
                     in Returns (m2\<lparr>sig := hasher_Sum h1 (take 0 (sig m2))\<rparr>, None))
                  else Returns (m2, Some (Errorf ''caveat identifier too big'' []))))
          else Returns (m, err))"

definition bindForRequest :: "bytes \<Rightarrow> bytes \<Rightarrow> bytes" where
  "bindForRequest rootSig dischargeSig =
     (if bytes_Equal rootSig dischargeSig then rootSig
      else (let h = sha256_New;
                h1 = sha256_Write h rootSig;
                h2 = sha256_Write h1 dischargeSig
            in sha256_Sum h2 []))"

definition Bind :: "Macaroon \<Rightarrow> bytes \<Rightarrow> Macaroon" where
  "Bind m s = m\<lparr>sig := bindForRequest s (sig m)\<rparr>"

text \<open>
  The first half of \<open>verify\<close> (the lines that recompute \<open>caveatSig\<close>), as a function of its
  own so that theorems can name the recomputed signature.
\<close>

definition verify_caveatSig :: "Macaroon \<Rightarrow> bytes \<Rightarrow> bytes outcome" where
  "verify_caveatSig m rootKey =
     (case dataBytes m (id' m) of
        Panics \<Rightarrow> Panics
      | Returns idb \<Rightarrow>
          (let caveatSig = keyedHash rootKey idb;
               h = keyedHasher caveatSig
           in (case dataBytes m (caveats m) of
                 Panics \<Rightarrow> Panics
               | Returns cavb \<Rightarrow> Returns (hasher_Sum (hasher_Write h cavb) (take 0 caveatSig)))))"

definition verify :: "Macaroon \<Rightarrow> bytes \<Rightarrow> bytes \<Rightarrow> error outcome" where
  "verify m rootSig rootKey =
     (let rootSig1 = (if length rootSig = 0 then sig m else rootSig) in
      case verify_caveatSig m rootKey of
        Panics \<Rightarrow> Panics
      | Returns caveatSig \<Rightarrow>
          (let boundSig = bindForRequest rootSig1 caveatSig in
           if \<not> hmac_Equal boundSig (sig m)
           then Returns (Some (Errorf ''signature mismatch after caveat verification'' []))
           else Returns None))"

definition Verify :: "Macaroon \<Rightarrow> bytes \<Rightarrow> error outcome" where
  "Verify m rootKey =
     (case verify m (sig m) rootKey of
        Panics \<Rightarrow> Panics
      | Returns (Some err) \<Rightarrow> Returns (Some err)
      | Returns None \<Rightarrow> Returns None)"


section \<open>Marshalling (the marshal file that declares \<open>fieldCaveat\<close>)\<close>

text \<open>
  Two marshal files are among the sources. The one modelled here is the one the macaroon
  file compiles with: it declares \<open>fieldCaveat\<close> and \<open>MarshalCaveats\<close>, and treats
  \<open>m.caveats\<close> as one packet, as the \<open>Macaroon\<close> struct declares it. The other
  (\<^verbatim>\<open>marshal.go\<close>) ranges over \<open>m.caveats\<close> as a list of caveats and calls an
  \<open>appendCaveat\<close> that no source file defines.
\<close>

definition fieldStrings :: "string list" where
  "fieldStrings = [''invalid'', ''location'', ''identifier'', ''signature'', ''cav'', ''vid'']"

definition field_String :: "field \<Rightarrow> string" where
  "field_String f =
     (let f1 = (if uint f \<ge> int (length fieldStrings) then fieldInvalid else f)
      in fieldStrings ! unat f1)"

definition expectPacket :: "Macaroon \<Rightarrow> int \<Rightarrow> field \<Rightarrow> (int \<times> packet \<times> error) outcome" where
  "expectPacket m start_ix kind =
     (case parsePacket m start_ix of
        Panics \<Rightarrow> Panics
      | Returns (p, Some err) \<Rightarrow> Returns (0, packet0, Some err)
      | Returns (p, None) \<Rightarrow>
          (case fieldNum m p of
             Panics \<Rightarrow> Panics
           | Returns f \<Rightarrow>
               if f \<noteq> kind
               then Returns (0, packet0,
                      Some (Errorf ''unexpected field %v; expected %s'' [ArgField f, ArgField kind]))
               else Returns (start_ix + packet_len p, p, None)))"

text \<open>
  \<open>unmarshalBinaryNoCopy\<close>. Each \<^verbatim>\<open>start, m.x, err = m.expectPacket(...)\<close> assigns the
  packet (the zero packet on error) before \<open>err\<close> is tested.
\<close>

definition unmarshalBinaryNoCopy :: "Macaroon \<Rightarrow> bytes \<Rightarrow> (Macaroon \<times> error) outcome" where
  "unmarshalBinaryNoCopy m dat =
     (let m0 = m\<lparr>data := dat\<rparr> in
      case expectPacket m0 0 fieldLocation of
        Panics \<Rightarrow> Panics
      | Returns (start1, p1, err1) \<Rightarrow>
          (let m1 = m0\<lparr>location := p1\<rparr> in
           if err1 \<noteq> None then Returns (m1, err1)
           else (case expectPacket m1 start1 fieldIdentifier of
                   Panics \<Rightarrow> Panics
                 | Returns (start2, p2, err2) \<Rightarrow>
                     (let m2 = m1\<lparr>id' := p2\<rparr> in
                      if err2 \<noteq> None then Returns (m2, err2)
                      else (case expectPacket m2 start2 fieldCaveat of
                              Panics \<Rightarrow> Panics
                            | Returns (start3, p3, err3) \<Rightarrow>
                                (let m3 = m2\<lparr>caveats := p3\<rparr> in
                                 if err3 \<noteq> None then Returns (m3, err3)
                                 else Returns (m3, None)))))))"

definition UnmarshalBinary :: "Macaroon \<Rightarrow> bytes \<Rightarrow> (Macaroon \<times> error) outcome" where
  "UnmarshalBinary m dat = unmarshalBinaryNoCopy m ([] @ dat)"

definition appendBinary :: "Macaroon \<Rightarrow> bytes \<Rightarrow> bytes \<times> error" where
  "appendBinary m dat =
     (case rawAppendPacket (dat @ data m) fieldSignature (sig m) of
        (dat1, p, ok) \<Rightarrow>
          if \<not> ok
          then ([], Some (Errorf ''failed to append signature to macaroon, packet is too long'' []))
          else (dat1, None))"

text \<open>
  Modelled from the spec: \<open>packetSize\<close> is called by \<open>marshalBinaryLen\<close> but defined in no
  source file. By the spec (4.1, 6) a packet is a 3-byte header followed by the payload, and
  \<open>marshal_len\<close> is the number of bytes of the binary form.
\<close>

definition packetSize :: "bytes \<Rightarrow> int" where
  "packetSize dat = 3 + int (length dat)"

definition marshalBinaryLen :: "Macaroon \<Rightarrow> int" where
  "marshalBinaryLen m = int (length (data m)) + packetSize (sig m)"

definition MarshalBinary :: "Macaroon \<Rightarrow> bytes \<times> error" where
  "MarshalBinary m = appendBinary m []"

fun Slice_MarshalBinary_loop :: "Macaroon list \<Rightarrow> bytes \<Rightarrow> (bytes \<times> error) outcome" where
  "Slice_MarshalBinary_loop [] dat = Returns (dat, None)"
| "Slice_MarshalBinary_loop (m # ms) dat =
     (case appendBinary m dat of
        (dat1, Some err) \<Rightarrow>
          (case Id' m of
             Panics \<Rightarrow> Panics
           | Returns i \<Rightarrow>
               Returns ([], Some (Errorf ''failed to marshal macaroon %q: %v''
                                   [ArgBytes i, ArgError err])))
      | (dat1, None) \<Rightarrow> Slice_MarshalBinary_loop ms dat1)"

definition Slice_MarshalBinary :: "Macaroon list \<Rightarrow> (bytes \<times> error) outcome" where
  "Slice_MarshalBinary s = Slice_MarshalBinary_loop s []"

text \<open>
  \<open>Slice.UnmarshalBinary\<close>. The loop runs on the copy
  \<^verbatim>\<open>data = append([]byte(nil), data...)\<close>, whose capacity the run-time system chooses;
  \<open>spare\<close> is that capacity minus the length, and it stays the same when \<open>data\<close> is
  resliced from the front. \<open>m.data\<close> is the slice \<open>data\<close> itself, so the full slice
  expression \<^verbatim>\<open>m.data[0:len(m.data):m.marshalBinaryLen()]\<close> panics when the new capacity
  exceeds \<open>len(data) + spare\<close>, and \<^verbatim>\<open>data[m.marshalBinaryLen():]\<close> panics when the bound
  exceeds \<open>len(data)\<close>. The result is the slice \<open>*s\<close> and the error.
\<close>

function Slice_UnmarshalBinary_loop ::
  "Macaroon list \<Rightarrow> bytes \<Rightarrow> nat \<Rightarrow> (Macaroon list \<times> error) outcome" where
  "Slice_UnmarshalBinary_loop s dat spare =
     (if \<not> length dat > 0 then Returns (s, None)
      else (case unmarshalBinaryNoCopy Macaroon0 dat of
              Panics \<Rightarrow> Panics
            | Returns (m, Some err) \<Rightarrow>
                Returns (s, Some (Errorf ''cannot unmarshal macaroon: %v'' [ArgError err]))
            | Returns (m, None) \<Rightarrow>
                if marshalBinaryLen m > int (length dat) + int spare then Panics
                else if marshalBinaryLen m > int (length dat) then Panics
                else Slice_UnmarshalBinary_loop (s @ [m])
                       (drop (nat (marshalBinaryLen m)) dat) spare))"
  by pat_completeness auto
termination
proof (relation "measure (\<lambda>(s, dat, spare). length dat)", goal_cases)
  case 1
  show ?case by simp
next
  case (2 s dat spare x m err)
  have "0 < marshalBinaryLen m"
    by (simp add: marshalBinaryLen_def packetSize_def)
  with 2 show ?case by simp
qed

definition Slice_UnmarshalBinary :: "bytes \<Rightarrow> nat \<Rightarrow> (Macaroon list \<times> error) outcome" where
  "Slice_UnmarshalBinary dat spare = Slice_UnmarshalBinary_loop [] ([] @ dat) spare"

subsection \<open>JSON\<close>

record macaroonJSON =
  Caveats :: bytes
  Location_json :: bytes
  Identifier :: bytes
  Signature_json :: bytes

text \<open>
  \<^verbatim>\<open>hex.DecodeString\<close> (standard library): two hexadecimal characters per byte; on a
  character that is not hexadecimal or on an odd length it returns the bytes decoded before
  the error, and the error.
\<close>

definition fromHexChar :: "byte \<Rightarrow> byte option" where
  "fromHexChar c =
     (if 0x30 \<le> c \<and> c \<le> 0x39 then Some (c - 0x30)
      else if 0x61 \<le> c \<and> c \<le> 0x66 then Some (c - 0x61 + 10)
      else if 0x41 \<le> c \<and> c \<le> 0x46 then Some (c - 0x41 + 10)
      else None)"

fun hex_DecodeString :: "bytes \<Rightarrow> bytes \<times> error" where
  "hex_DecodeString (p # q # r) =
     (case fromHexChar p of
        None \<Rightarrow> ([], Some (hex_InvalidByteError p))
      | Some a \<Rightarrow>
          (case fromHexChar q of
             None \<Rightarrow> ([], Some (hex_InvalidByteError q))
           | Some b \<Rightarrow>
               (case hex_DecodeString r of (ds, err) \<Rightarrow> ((push_bit 4 a OR b) # ds, err))))"
| "hex_DecodeString [p] =
     (case fromHexChar p of
        None \<Rightarrow> ([], Some (hex_InvalidByteError p))
      | Some a \<Rightarrow> ([], Some hex_ErrLength))"
| "hex_DecodeString [] = ([], None)"

text \<open>
  \<open>UnmarshalJSON\<close>. \<^verbatim>\<open>json.Unmarshal\<close> is the standard library's; the second argument
  is what it returned: the decoded \<open>macaroonJSON\<close> and its error.
\<close>

definition UnmarshalJSON :: "Macaroon \<Rightarrow> macaroonJSON \<times> error \<Rightarrow> Macaroon \<times> error" where
  "UnmarshalJSON m unmarshalled =
     (case unmarshalled of
        (mjson, Some err) \<Rightarrow> (m, Some (Errorf ''cannot unmarshal json data: %v'' [ArgError err]))
      | (mjson, None) \<Rightarrow>
          (case init m (Identifier mjson) (Location_json mjson) of
             (m1, Some err) \<Rightarrow> (m1, Some err)
           | (m1, None) \<Rightarrow>
               (case hex_DecodeString (Signature_json mjson) of
                  (sg, Some err) \<Rightarrow>
                    (m1\<lparr>sig := sg\<rparr>,
                     Some (Errorf ''cannot decode macaroon signature %q: %v''
                            [ArgBytes sg, ArgError err]))
                | (sg, None) \<Rightarrow>
                    (let m2 = m1\<lparr>sig := sg\<rparr> in
                     case hex_DecodeString (Caveats mjson) of
                       (cavData, Some err) \<Rightarrow>
                         (m2, Some (Errorf ''cannot decode macaroon caveats %q: %v''
                                     [ArgPacket (caveats m2), ArgError err]))
                     | (cavData, None) \<Rightarrow>
                         (case appendPacket m2 fieldCaveat cavData of
                            (m3, p, ok) \<Rightarrow>
                              (let m4 = m3\<lparr>caveats := p\<rparr> in
                               if \<not> ok
                               then (m4, Some (Errorf ''cannot decode macaroon caveats'' []))
                               else (m4, None)))))))"

section \<open>Concrete macaroons\<close>

text \<open>
  Inputs at which the functions are evaluated below. \<open>key0\<close> is the root key
  \<^verbatim>\<open>"secret"\<close>. \<open>mac_new\<close> is the macaroon that \<open>New\<close> returns for \<open>key0\<close> with an empty
  identifier and an empty location, and \<open>sig1\<close> its signature; \<open>mac_cav\<close> is \<open>mac_new\<close>
  after \<open>SetCaveats\<close> with a struct without fields, and \<open>sig2\<close> its signature;
  \<open>mac_cav2\<close> is \<open>mac_cav\<close> after the same \<open>SetCaveats\<close> once more, and \<open>sig3\<close> its
  signature (lemmas \<open>New_key0\<close>, \<open>SetCaveats_mac_new\<close> and \<open>SetCaveats_mac_cav\<close>).
\<close>

definition key0 :: bytes where
  "key0 = [115, 101, 99, 114, 101, 116]"

definition sig1 :: bytes where
  "sig1 = [249, 230, 110, 23, 155, 103, 71, 174, 84, 16, 143, 130, 248, 173, 232, 179,
           194, 93, 118, 253, 48, 175, 222, 108, 57, 88, 34, 197, 48, 25, 97, 105]"

definition sig2 :: bytes where
  "sig2 = [15, 165, 229, 165, 93, 19, 58, 0, 151, 56, 32, 241, 102, 69, 216, 35,
           23, 91, 249, 177, 79, 186, 151, 205, 228, 198, 38, 4, 205, 254, 45, 51]"

definition mac_new :: Macaroon where
  "mac_new =
     \<lparr>data = [3, 0, 1, 3, 0, 2],
      location = \<lparr>start = 0, totalLen = 3, headerLen' = 0\<rparr>,
      id' = \<lparr>start = 3, totalLen = 3, headerLen' = 0\<rparr>,
      caveats = packet0,
      sig = sig1\<rparr>"

definition mac_cav :: Macaroon where
  "mac_cav =
     \<lparr>data = [3, 0, 1, 3, 0, 2, 3, 0, 4],
      location = \<lparr>start = 0, totalLen = 3, headerLen' = 0\<rparr>,
      id' = \<lparr>start = 3, totalLen = 3, headerLen' = 0\<rparr>,
      caveats = \<lparr>start = 6, totalLen = 3, headerLen' = 0\<rparr>,
      sig = sig2\<rparr>"

definition sig3 :: bytes where
  "sig3 = [140, 38, 242, 145, 144, 138, 243, 213, 52, 155, 6, 199, 169, 136, 222, 231,
           216, 113, 144, 128, 207, 10, 240, 129, 100, 221, 57, 189, 176, 244, 11, 243]"

definition mac_cav2 :: Macaroon where
  "mac_cav2 =
     \<lparr>data = [3, 0, 1, 3, 0, 2, 3, 0, 4, 3, 0, 4],
      location = \<lparr>start = 0, totalLen = 3, headerLen' = 0\<rparr>,
      id' = \<lparr>start = 3, totalLen = 3, headerLen' = 0\<rparr>,
      caveats = \<lparr>start = 9, totalLen = 3, headerLen' = 0\<rparr>,
      sig = sig3\<rparr>"

text \<open>\<open>wire_cav\<close> is the binary form of \<open>mac_cav\<close> (lemma \<open>MarshalBinary_mac_cav\<close>).\<close>

definition wire_cav :: bytes where
  "wire_cav = [3, 0, 1, 3, 0, 2, 3, 0, 4, 35, 0, 3] @ sig2"

section \<open>Auxiliary facts\<close>

subsection \<open>Conversions between integers and words\<close>

lemma sint32_of_int: "0 \<le> n \<Longrightarrow> n < 2147483648 \<Longrightarrow> sint (word_of_int n :: 32 word) = n"
  by (simp add: sint_sbintrunc' signed_take_bit_int_eq_self)

lemma uint16_of_int: "0 \<le> n \<Longrightarrow> n < 65536 \<Longrightarrow> uint (word_of_int n :: 16 word) = n"
  by (simp add: uint_word_of_int_eq take_bit_int_eq_self)

lemma byte_of_int_mod: "(word_of_int (n mod 256) :: byte) = word_of_int n"
  by (simp add: word_of_int_eq_iff take_bit_eq_mod)

lemma drop8_16: "0 \<le> n \<Longrightarrow> n < 65536 \<Longrightarrow> (ucast (drop_bit 8 (word_of_int n :: 16 word)) :: byte) = word_of_int (n div 256)"
  by (simp add: word_uint_eq_iff uint_word_of_int_eq take_bit_int_eq_self unsigned_ucast_eq
      unsigned_drop_bit_eq drop_bit_eq_div take_bit_eq_mod uint_div_distrib)

lemma ucast_16_8: "(ucast (word_of_int n :: 16 word) :: byte) = word_of_int n"
  by (simp add: ucast_down_wi is_down)

lemma ucast_16_32: "0 \<le> n \<Longrightarrow> n < 65536 \<Longrightarrow> (ucast (word_of_int n :: 16 word) :: 32 word) = word_of_int n"
  by (simp add: word_uint_eq_iff uint_word_of_int_eq take_bit_int_eq_self unsigned_ucast_eq take_bit_eq_mod)

lemma PutUint16_bytes:
  "0 \<le> n \<Longrightarrow> n < 65536 \<Longrightarrow>
   LittleEndian_PutUint16 (word_of_int n) = [word_of_int (n mod 256), word_of_int (n div 256)]"
  by (simp add: LittleEndian_PutUint16_def ucast_16_8 drop8_16 byte_of_int_mod)

lemma Uint16_PutUint16: "LittleEndian_Uint16 (LittleEndian_PutUint16 v @ r) = Returns v"
  apply (simp add: LittleEndian_PutUint16_def LittleEndian_Uint16_def)
  apply (rule bit_word_eqI)
  apply (auto simp add: bit_simps)
  done

lemma xor_byte_eq_0: "(a XOR b = 0) = (a = (b :: byte))"
proof
  assume h: "a XOR b = 0"
  have "b = (a XOR a) XOR b" by simp
  also have "\<dots> = a XOR (a XOR b)" by (simp only: xor.assoc)
  also have "\<dots> = a" by (simp add: h)
  finally show "a = b" by simp
next
  assume "a = b"
  then show "a XOR b = 0" by simp
qed

lemma ConstantTimeCompare_loop:
  "length x = length y \<Longrightarrow>
   (foldl (\<lambda>v (a, b). v OR (a XOR b)) (v0 :: byte) (zip x y) = 0) = (v0 = 0 \<and> x = y)"
proof (induction x y arbitrary: v0 rule: list_induct2)
  case Nil
  then show ?case by simp
next
  case (Cons a x b y)
  then show ?case by (auto simp add: or_eq_0_iff xor_byte_eq_0)
qed

lemma hmac_Equal_iff: "hmac_Equal a b = (a = b)"
  using ConstantTimeCompare_loop [of a b 0]
  by (auto simp add: hmac_Equal_def ConstantTimeCompare_def)

lemma length_sha_output: "length (sha_output st) = 32"
  by (induction st rule: sha_output.induct) (simp add: be32_bytes_def)

lemma length_sha256: "length (sha256 msg) = 32"
  by (simp add: sha256_def length_sha_output)

lemma length_keyedHash: "length (keyedHash k t) = 32"
  by (simp add: keyedHash_def hasher_Sum_def hmac_sha256_def Let_def length_sha256)

lemma rawAppendPacket_ok:
  assumes "3 + int (length dat) \<le> 65535"
  shows "rawAppendPacket buf f dat =
     (buf @ [word_of_int ((3 + int (length dat)) mod 256),
             word_of_int ((3 + int (length dat)) div 256), f] @ dat,
      \<lparr>start = word_of_int (int (length buf)),
         totalLen = word_of_int (3 + int (length dat)), headerLen' = 0\<rparr>,
      True)"
proof -
  have le: "LittleEndian_PutUint16 (word_of_int (3 + int (length dat))) =
      [word_of_int ((3 + int (length dat)) mod 256), word_of_int ((3 + int (length dat)) div 256)]"
    using assms by (intro PutUint16_bytes) simp_all
  have gt: "\<not> maxPacketLen < 3 + int (length dat)"
    using assms by (simp add: maxPacketLen_def)
  have eq: "2 + 1 + int (length dat) = 3 + int (length dat)" by simp
  show ?thesis
    unfolding rawAppendPacket_def Let_def appendSize_def
    by (simp only: gt if_False le eq append_assoc append.simps)
qed

lemma rawAppendPacket_too_big:
  "3 + int (length dat) > 65535 \<Longrightarrow> rawAppendPacket buf f dat = ([], packet0, False)"
  by (simp add: rawAppendPacket_def maxPacketLen_def)

subsection \<open>Appending and reading packets\<close>

lemma slice_append_mid:
  "go_slice (a @ b @ c) (int (length a)) (int (length a) + int (length b)) = Returns b"
  by (simp add: go_slice_def)

lemma slice_suffix: "go_slice s (int (length s)) (int (length s)) = Returns []"
  by (simp add: go_slice_def)

lemma appendPacket_ok:
  assumes "3 + int (length dat) \<le> 65535"
  shows "appendPacket m f dat =
     (m\<lparr>data := data m @ [word_of_int ((3 + int (length dat)) mod 256),
                            word_of_int ((3 + int (length dat)) div 256), f] @ dat\<rparr>,
      \<lparr>start = word_of_int (int (length (data m))),
         totalLen = word_of_int (3 + int (length dat)), headerLen' = 0\<rparr>,
      True)"
  by (simp only: appendPacket_def rawAppendPacket_ok [OF assms] prod.case not_True_eq_False if_False)

lemma appendPacket_too_big:
  "3 + int (length dat) > 65535 \<Longrightarrow> appendPacket m f dat = (m, packet0, False)"
  by (simp add: appendPacket_def rawAppendPacket_too_big)

text \<open>Reading a packet that lies in the buffer.\<close>

lemma packet_in_buffer:
  assumes d: "data m = a @ [l0, l1, f] @ payload @ rest"
    and n: "3 + int (length payload) \<le> 65535"
    and r: "int (length a) + 3 + int (length payload) < 2147483648"
    and p: "p = \<lparr>start = word_of_int (int (length a)),
                 totalLen = word_of_int (3 + int (length payload)), headerLen' = 0\<rparr>"
  shows "dataBytes m p = Returns payload"
    and "packetBytes m p = Returns ([l0, l1, f] @ payload)"
    and "fieldNum m p = Returns f"
    and "packet_len p = 3 + int (length payload)"
proof -
  let ?L = "int (length a)" and ?n = "3 + int (length payload)"
  have t0: "totalLen p \<noteq> 0"
  proof
    assume "totalLen p = 0"
    then have "uint (word_of_int ?n :: 16 word) = 0" by (simp add: p)
    moreover have "uint (word_of_int ?n :: 16 word) = ?n"
      using n by (intro uint16_of_int) simp_all
    ultimately show False by simp
  qed
  have uc: "(ucast (word_of_int ?n :: 16 word) :: 32 word) = word_of_int ?n"
    using n by (intro ucast_16_32) simp_all
  have s0: "sint (word_of_int ?L :: 32 word) = ?L"
    using r by (intro sint32_of_int) simp_all
  have s3: "sint (word_of_int ?L + headerLen :: 32 word) = ?L + 3"
  proof -
    have "word_of_int ?L + (headerLen :: 32 word) = word_of_int (?L + 3)"
      by (simp add: headerLen_def)
    moreover have "sint (word_of_int (?L + 3) :: 32 word) = ?L + 3"
      using r by (intro sint32_of_int) simp_all
    ultimately show ?thesis by simp
  qed
  have s2: "sint (word_of_int ?L + 2 :: 32 word) = ?L + 2"
  proof -
    have "word_of_int ?L + (2 :: 32 word) = word_of_int (?L + 2)"
      by simp
    moreover have "sint (word_of_int (?L + 2) :: 32 word) = ?L + 2"
      using r by (intro sint32_of_int) simp_all
    ultimately show ?thesis by simp
  qed
  have sn: "sint (word_of_int ?L + word_of_int ?n :: 32 word) = ?L + ?n"
  proof -
    have "word_of_int ?L + (word_of_int ?n :: 32 word) = word_of_int (?L + ?n)"
      by simp
    moreover have "sint (word_of_int (?L + ?n) :: 32 word) = ?L + ?n"
      using r by (intro sint32_of_int) simp_all
    ultimately show ?thesis by simp
  qed
  have sl1: "go_slice (data m) (?L + 3) (?L + ?n) = Returns payload"
  proof -
    have "data m = (a @ [l0, l1, f]) @ payload @ rest" by (simp add: d)
    moreover have "?L + 3 = int (length (a @ [l0, l1, f]))" by simp
    moreover have "?L + ?n = int (length (a @ [l0, l1, f])) + int (length payload)" by simp
    ultimately show ?thesis by (simp only: slice_append_mid)
  qed
  have sl2: "go_slice (data m) ?L (?L + ?n) = Returns ([l0, l1, f] @ payload)"
  proof -
    have "data m = a @ ([l0, l1, f] @ payload) @ rest" by (simp add: d)
    moreover have "?L + ?n = ?L + int (length ([l0, l1, f] @ payload))" by simp
    ultimately show ?thesis by (simp only: slice_append_mid)
  qed
  show "dataBytes m p = Returns payload"
    unfolding dataBytes_def using t0 by (simp only: if_False p packet.simps uc s3 sn sl1)
  show "packetBytes m p = Returns ([l0, l1, f] @ payload)"
    unfolding packetBytes_def by (simp only: p packet.simps uc s0 sn sl2)
  have ix: "go_index (data m) (?L + 2) = Returns f"
  proof -
    have "nat (?L + 2) = length a + 2" by simp
    moreover have "(a @ [l0, l1, f] @ payload @ rest) ! (length a + 2) = f"
      by (simp add: nth_append)
    ultimately show ?thesis by (simp add: go_index_def d)
  qed
  show "fieldNum m p = Returns f"
    unfolding fieldNum_def using t0
    by (simp only: if_False p packet.simps s2 ix)
  show "packet_len p = 3 + int (length payload)"
    unfolding packet_len_def using n by (simp only: p packet.simps) (intro uint16_of_int, simp_all)
qed

subsection \<open>Hash values\<close>

lemma keyedHash_key0: "keyedHash key0 [] = sig1"
  by code_simp

lemma keyedHash_sig1: "keyedHash sig1 [] = sig2"
  by code_simp

lemma sha256_sig1_sig2:
  "sha256 (sig1 @ sig2) =
     [44, 83, 73, 239, 165, 136, 14, 146, 250, 238, 237, 109, 239, 190, 162, 75,
      238, 44, 215, 26, 146, 33, 113, 123, 118, 52, 14, 238, 239, 219, 253, 132]"
  by code_simp

lemma sha256_sig2:
  "sha256 sig2 =
     [126, 94, 201, 228, 199, 107, 103, 176, 169, 90, 6, 177, 212, 177, 0, 111,
      139, 58, 100, 70, 61, 102, 12, 83, 117, 234, 147, 198, 254, 117, 128, 85]"
  by code_simp

lemma keyedHasher_chain:
  "hasher_Sum (hasher_Write (keyedHasher k) t) [] = keyedHash k t"
  by (simp add: keyedHash_def)

subsection \<open>Construction\<close>

lemma init_ok:
  assumes "3 + int (length loc) \<le> 65535" and "3 + int (length ident) \<le> 65535"
  shows "init m ident loc =
     (m\<lparr>data := data m
              @ [word_of_int ((3 + int (length loc)) mod 256),
                 word_of_int ((3 + int (length loc)) div 256), fieldLocation] @ loc
              @ [word_of_int ((3 + int (length ident)) mod 256),
                 word_of_int ((3 + int (length ident)) div 256), fieldIdentifier] @ ident,
         location := \<lparr>start = word_of_int (int (length (data m))),
                       totalLen = word_of_int (3 + int (length loc)), headerLen' = 0\<rparr>,
         id' := \<lparr>start = word_of_int (int (length (data m)) + 3 + int (length loc)),
                  totalLen = word_of_int (3 + int (length ident)), headerLen' = 0\<rparr>\<rparr>,
      None)"
  unfolding init_def
  by (simp add: appendPacket_ok [OF assms(1)] appendPacket_ok [OF assms(2)] Let_def add.assoc)

lemma init_None:
  assumes "init m ident loc = (m1, None)"
  shows "3 + int (length loc) \<le> 65535 \<and> 3 + int (length ident) \<le> 65535"
proof (rule ccontr)
  assume "\<not> ?thesis"
  then consider "3 + int (length loc) > 65535"
    | "3 + int (length loc) \<le> 65535" "3 + int (length ident) > 65535" by linarith
  then show False
  proof cases
    case 1
    then show False using assms by (simp add: init_def appendPacket_too_big Let_def)
  next
    case 2
    then show False using assms
      by (simp add: init_def appendPacket_ok [OF 2(1)] appendPacket_too_big Let_def)
  qed
qed

lemma New_ok:
  assumes l: "3 + int (length loc) \<le> 65535" and i: "3 + int (length ident) \<le> 65535"
  shows "New rootKey ident loc =
     Returns (Some \<lparr>data = [word_of_int ((3 + int (length loc)) mod 256),
                            word_of_int ((3 + int (length loc)) div 256), fieldLocation] @ loc
                         @ [word_of_int ((3 + int (length ident)) mod 256),
                            word_of_int ((3 + int (length ident)) div 256), fieldIdentifier] @ ident,
                    location = \<lparr>start = 0, totalLen = word_of_int (3 + int (length loc)),
                                 headerLen' = 0\<rparr>,
                    id' = \<lparr>start = word_of_int (3 + int (length loc)),
                            totalLen = word_of_int (3 + int (length ident)), headerLen' = 0\<rparr>,
                    caveats = packet0,
                    sig = keyedHash rootKey ident\<rparr>, None)"
proof -
  let ?lp = "[word_of_int ((3 + int (length loc)) mod 256),
              word_of_int ((3 + int (length loc)) div 256), fieldLocation] @ loc"
  let ?ip = "[word_of_int ((3 + int (length ident)) mod 256),
              word_of_int ((3 + int (length ident)) div 256), fieldIdentifier]"
  obtain m where ini: "init Macaroon0 ident loc = (m, None)"
    and m: "m = \<lparr>data = ?lp @ ?ip @ ident,
                 location = \<lparr>start = 0, totalLen = word_of_int (3 + int (length loc)),
                              headerLen' = 0\<rparr>,
                 id' = \<lparr>start = word_of_int (3 + int (length loc)),
                         totalLen = word_of_int (3 + int (length ident)), headerLen' = 0\<rparr>,
                 caveats = packet0, sig = []\<rparr>"
    using init_ok [OF l i, of Macaroon0] by (simp add: Macaroon0_def)
  have d: "data m = ?lp @ ?ip @ ident @ []"
    by (simp add: m)
  have r: "int (length ?lp) + 3 + int (length ident) < 2147483648"
    using l i by simp
  have p: "id' m = \<lparr>start = word_of_int (int (length ?lp)),
                 totalLen = word_of_int (3 + int (length ident)), headerLen' = 0\<rparr>"
    by (simp add: m add.commute)
  have db: "dataBytes m (id' m) = Returns ident"
    by (rule packet_in_buffer(1) [OF d i r p])
  have rec: "m\<lparr>sig := keyedHash rootKey ident\<rparr> =
      \<lparr>data = ?lp @ ?ip @ ident,
       location = \<lparr>start = 0, totalLen = word_of_int (3 + int (length loc)), headerLen' = 0\<rparr>,
       id' = \<lparr>start = word_of_int (3 + int (length loc)),
               totalLen = word_of_int (3 + int (length ident)), headerLen' = 0\<rparr>,
       caveats = packet0,
       sig = keyedHash rootKey ident\<rparr>"
    by (simp add: m)
  show ?thesis
    unfolding New_def
    by (simp only: ini prod.case option.case db outcome.case rec) (simp only: append_assoc)
qed

lemma New_Some:
  assumes "New rootKey ident loc = Returns (Some m, None)"
  shows "3 + int (length loc) \<le> 65535 \<and> 3 + int (length ident) \<le> 65535"
proof -
  obtain m1 e where ini: "init Macaroon0 ident loc = (m1, e)" by (cases "init Macaroon0 ident loc")
  have "e = None"
    using assms ini by (cases e) (simp_all add: New_def)
  with ini show ?thesis using init_None by blast
qed

lemma SetCaveats_ok:
  assumes mc: "MarshalCaveats v = Returns (cav, None)" and c: "3 + int (length cav) \<le> 65535"
  shows "SetCaveats m v =
     Returns (m\<lparr>data := data m @ [word_of_int ((3 + int (length cav)) mod 256),
                                     word_of_int ((3 + int (length cav)) div 256), fieldCaveat] @ cav,
                caveats := \<lparr>start = word_of_int (int (length (data m))),
                             totalLen = word_of_int (3 + int (length cav)), headerLen' = 0\<rparr>,
                sig := keyedHash (sig m) cav\<rparr>, None)"
  unfolding SetCaveats_def
  by (simp add: mc appendPacket_ok [OF c] Let_def keyedHasher_chain)

lemma SetCaveats_None:
  assumes "SetCaveats m v = Returns (m1, None)"
  shows "\<exists>cav. MarshalCaveats v = Returns (cav, None) \<and> 3 + int (length cav) \<le> 65535"
proof (cases "MarshalCaveats v")
  case Panics
  then show ?thesis using assms by (simp add: SetCaveats_def)
next
  case (Returns r)
  obtain cav e where r: "r = (cav, e)" by (cases r)
  show ?thesis
  proof (cases e)
    case (Some err)
    then show ?thesis using assms Returns r by (simp add: SetCaveats_def)
  next
    case None
    have "3 + int (length cav) \<le> 65535"
    proof (rule ccontr)
      assume "\<not> ?thesis"
      then have "3 + int (length cav) > 65535" by simp
      then show False
        using assms Returns r None by (simp add: SetCaveats_def appendPacket_too_big Let_def)
    qed
    then show ?thesis using Returns r None by simp
  qed
qed

subsection \<open>Verification\<close>

lemma bindForRequest_eq: "bindForRequest r d = (if r = d then r else sha256 (r @ d))"
  by (simp add: bindForRequest_def bytes_Equal_def sha256_New_def sha256_Write_def
      sha256_Sum_def Let_def)

lemma verify_eq:
  "verify m rootSig rootKey =
     (case verify_caveatSig m rootKey of
        Panics \<Rightarrow> Panics
      | Returns c \<Rightarrow>
          if bindForRequest (if rootSig = [] then sig m else rootSig) c = sig m
          then Returns None
          else Returns (Some (Errorf ''signature mismatch after caveat verification'' [])))"
  by (simp add: verify_def hmac_Equal_iff Let_def split: outcome.split)

lemma Verify_eq: "Verify m rootKey = verify m (sig m) rootKey"
  by (simp add: Verify_def split: outcome.split option.split)

lemma verify_caveatSig_built:
  assumes l: "3 + int (length loc) \<le> 65535" and i: "3 + int (length ident) \<le> 65535"
    and c: "3 + int (length cav) \<le> 65535"
    and d: "data m = [l0, l1, lf] @ loc @ [i0, i1, idf] @ ident @ [c0, c1, cf] @ cav"
    and ip: "id' m = \<lparr>start = word_of_int (3 + int (length loc)),
                       totalLen = word_of_int (3 + int (length ident)), headerLen' = 0\<rparr>"
    and cp: "caveats m = \<lparr>start = word_of_int (6 + int (length loc) + int (length ident)),
                          totalLen = word_of_int (3 + int (length cav)), headerLen' = 0\<rparr>"
  shows "verify_caveatSig m rootKey = Returns (keyedHash (keyedHash rootKey ident) cav)"
proof -
  have d1: "data m = ([l0, l1, lf] @ loc) @ [i0, i1, idf] @ ident @ ([c0, c1, cf] @ cav)"
    by (simp add: d)
  have r1: "int (length ([l0, l1, lf] @ loc)) + 3 + int (length ident) < 2147483648"
    using l i by simp
  have ip1: "id' m = \<lparr>start = word_of_int (int (length ([l0, l1, lf] @ loc))),
                       totalLen = word_of_int (3 + int (length ident)), headerLen' = 0\<rparr>"
    by (simp add: ip add.commute)
  have b1: "dataBytes m (id' m) = Returns ident"
    by (rule packet_in_buffer(1) [OF d1 i r1 ip1])
  have d2: "data m = ([l0, l1, lf] @ loc @ [i0, i1, idf] @ ident) @ [c0, c1, cf] @ cav @ []"
    by (simp add: d)
  have r2: "int (length ([l0, l1, lf] @ loc @ [i0, i1, idf] @ ident)) + 3 + int (length cav)
            < 2147483648"
    using l i c by simp
  have cp1: "caveats m =
      \<lparr>start = word_of_int (int (length ([l0, l1, lf] @ loc @ [i0, i1, idf] @ ident))),
       totalLen = word_of_int (3 + int (length cav)), headerLen' = 0\<rparr>"
    by (simp add: cp add.commute add.left_commute)
  have b2: "dataBytes m (caveats m) = Returns cav"
    by (rule packet_in_buffer(1) [OF d2 c r2 cp1])
  show ?thesis
    unfolding verify_caveatSig_def
    by (simp only: b1 b2 outcome.case Let_def) (simp add: keyedHasher_chain)
qed

lemma New_key0: "New key0 [] [] = Returns (Some mac_new, None)"
  by (simp add: New_ok mac_new_def keyedHash_key0 fieldLocation_def fieldIdentifier_def)

lemma SetCaveats_mac_new: "SetCaveats mac_new (Struct []) = Returns (mac_cav, None)"
  by (simp add: SetCaveats_ok [of _ "[]"] MarshalCaveats_def mac_new_def mac_cav_def
      keyedHash_sig1 fieldCaveat_def)

lemma sig1_neq_sig2: "sig1 \<noteq> sig2"
  by (simp add: sig1_def sig2_def)

lemma sig1_nonempty: "sig1 \<noteq> []"
  by (simp add: sig1_def)

lemma sig_mac_new: "sig mac_new = sig1"
  by (simp add: mac_new_def)

lemma sig_mac_cav: "sig mac_cav = sig2"
  by (simp add: mac_cav_def)

lemma dataBytes_mac_new:
  "dataBytes mac_new (id' mac_new) = Returns []"
  "dataBytes mac_new (caveats mac_new) = Returns []"
  by (simp_all add: dataBytes_def mac_new_def headerLen_def go_slice_def packet0_def)

lemma dataBytes_mac_cav:
  "dataBytes mac_cav (id' mac_cav) = Returns []"
  "dataBytes mac_cav (caveats mac_cav) = Returns []"
  by (simp_all add: dataBytes_def mac_cav_def headerLen_def go_slice_def)

lemma verify_caveatSig_mac_new: "verify_caveatSig mac_new key0 = Returns sig2"
  unfolding verify_caveatSig_def
  by (simp only: dataBytes_mac_new outcome.case Let_def keyedHash_key0 keyedHash_sig1
      keyedHasher_chain take_0)

lemma verify_caveatSig_mac_cav: "verify_caveatSig mac_cav key0 = Returns sig2"
  unfolding verify_caveatSig_def
  by (simp only: dataBytes_mac_cav outcome.case Let_def keyedHash_key0 keyedHash_sig1
      keyedHasher_chain take_0)

lemma bindForRequest_sig1_sig2: "bindForRequest sig1 sig2 \<noteq> sig1"
  by (simp add: bindForRequest_eq sig1_neq_sig2 sha256_sig1_sig2) (simp add: sig1_def)

lemma bindForRequest_nil_sig2: "bindForRequest [] sig2 \<noteq> sig2"
  by (simp add: bindForRequest_eq sha256_sig2) (simp add: sig2_def)

lemma Verify_mac_cav: "Verify mac_cav key0 = Returns None"
  by (simp add: Verify_eq verify_eq verify_caveatSig_mac_cav sig_mac_cav bindForRequest_eq)

lemma Verify_mac_new:
  "Verify mac_new key0 =
     Returns (Some (Errorf ''signature mismatch after caveat verification'' []))"
  using bindForRequest_sig1_sig2
  by (simp add: Verify_eq verify_eq verify_caveatSig_mac_new sig_mac_new sig1_nonempty)

text \<open>
  A second \<open>SetCaveats\<close>: the signature is chained once more, but \<open>verify\<close> chains only
  the payload of the last caveats packet, and \<open>Verify\<close> rejects the macaroon.
\<close>

lemma keyedHash_sig2: "keyedHash sig2 [] = sig3"
  by code_simp

lemma sha256_sig3_sig2:
  "sha256 (sig3 @ sig2) =
     [215, 255, 56, 197, 61, 243, 240, 98, 157, 156, 42, 200, 138, 27, 223, 248,
      207, 156, 124, 193, 147, 209, 2, 117, 246, 23, 79, 184, 107, 67, 7, 148]"
  by code_simp

lemma SetCaveats_mac_cav: "SetCaveats mac_cav (Struct []) = Returns (mac_cav2, None)"
  by (simp add: SetCaveats_ok [of _ "[]"] MarshalCaveats_def mac_cav_def mac_cav2_def
      keyedHash_sig2 fieldCaveat_def)

lemma dataBytes_mac_cav2:
  "dataBytes mac_cav2 (id' mac_cav2) = Returns []"
  "dataBytes mac_cav2 (caveats mac_cav2) = Returns []"
  by (simp_all add: dataBytes_def mac_cav2_def headerLen_def go_slice_def)

lemma Verify_mac_cav2:
  "Verify mac_cav2 key0 =
     Returns (Some (Errorf ''signature mismatch after caveat verification'' []))"
proof -
  have cs: "verify_caveatSig mac_cav2 key0 = Returns sig2"
    unfolding verify_caveatSig_def
    by (simp only: dataBytes_mac_cav2 outcome.case Let_def keyedHash_key0 keyedHash_sig1
        keyedHasher_chain take_0)
  have sg: "sig mac_cav2 = sig3"
    by (simp add: mac_cav2_def)
  have ne: "sig3 \<noteq> sig2" "sig3 \<noteq> []"
    by (simp_all add: sig3_def sig2_def)
  have "bindForRequest sig3 sig2 \<noteq> sig3"
    by (simp add: bindForRequest_eq ne sha256_sig3_sig2) (simp add: sig3_def)
  then show ?thesis
    by (simp add: Verify_eq verify_eq cs sg ne)
qed

subsection \<open>Unmarshalling\<close>

lemma MarshalBinary_mac_cav: "MarshalBinary mac_cav = (wire_cav, None)"
  by code_simp

lemma unmarshalBinaryNoCopy_data_sig:
  assumes "unmarshalBinaryNoCopy m dat = Returns (m1, e)"
  shows "data m1 = dat \<and> sig m1 = sig m"
  using assms
  by (auto simp add: unmarshalBinaryNoCopy_def Let_def split: outcome.splits prod.splits if_splits)

lemma Slice_UnmarshalBinary_loop_nonempty:
  assumes "dat \<noteq> []"
  shows "Slice_UnmarshalBinary_loop s dat spare \<noteq> Returns (s1, None)"
proof (cases "unmarshalBinaryNoCopy Macaroon0 dat")
  case Panics
  then show ?thesis using assms by simp
next
  case (Returns r)
  obtain m e where r: "r = (m, e)" by (cases r)
  show ?thesis
  proof (cases e)
    case (Some err)
    then show ?thesis using assms Returns r by simp
  next
    case None
    from unmarshalBinaryNoCopy_data_sig [OF Returns [unfolded r]]
    have "marshalBinaryLen m = int (length dat) + 3"
      by (simp add: marshalBinaryLen_def packetSize_def Macaroon0_def)
    then show ?thesis using assms Returns r None by simp
  qed
qed

subsection \<open>Signatures\<close>

lemma hex_DecodeString_length:
  "hex_DecodeString s = (b, None) \<Longrightarrow> length s = 2 * length b"
  by (induction s arbitrary: b rule: hex_DecodeString.induct)
     (auto split: option.splits prod.splits)

lemma appendPacket_sig: "appendPacket m f dat = (m1, p, ok) \<Longrightarrow> sig m1 = sig m"
  by (auto simp add: appendPacket_def split: prod.splits if_splits)

lemma init_sig: "init m ident loc = (m1, e) \<Longrightarrow> sig m1 = sig m"
  by (auto simp add: init_def Let_def split: prod.splits if_splits dest!: appendPacket_sig)

lemma UnmarshalJSON_sig:
  assumes "UnmarshalJSON m (mjson, None) = (m1, None)"
  shows "hex_DecodeString (Signature_json mjson) = (sig m1, None)"
  using assms
  by (auto simp add: UnmarshalJSON_def Let_def
      split: prod.splits option.splits if_splits dest!: appendPacket_sig init_sig)

lemma New_sig:
  assumes "New rootKey ident loc = Returns (Some m, None)"
  shows "sig m = keyedHash rootKey ident"
proof -
  from New_Some [OF assms] have l: "3 + int (length loc) \<le> 65535"
    and i: "3 + int (length ident) \<le> 65535" by simp_all
  from assms [unfolded New_ok [OF l i]] show ?thesis by auto
qed

lemma SetCaveats_sig:
  assumes "SetCaveats m v = Returns (m1, None)"
  shows "\<exists>cav. MarshalCaveats v = Returns (cav, None) \<and> sig m1 = keyedHash (sig m) cav"
proof -
  from SetCaveats_None [OF assms] obtain cav
    where mc: "MarshalCaveats v = Returns (cav, None)" and c: "3 + int (length cav) \<le> 65535"
    by blast
  from assms [unfolded SetCaveats_ok [OF mc c]] have "sig m1 = keyedHash (sig m) cav" by auto
  with mc show ?thesis by blast
qed

lemma UnmarshalJSON_ab:
  "UnmarshalJSON Macaroon0
     (\<lparr>Caveats = [], Location_json = [], Identifier = [], Signature_json = [0x61, 0x62]\<rparr>, None)
   = (mac_cav\<lparr>sig := [0xab]\<rparr>, None)"
  by code_simp

subsection \<open>Decoding\<close>

text \<open>
  What \<open>parsePacket\<close> does, case by case; \<open>declared\<close> is the length that the first two
  bytes at the offset declare.
\<close>

lemma parsePacket_cases:
  fixes m :: Macaroon and s :: int
  defines "n \<equiv> int (length (data m))"
  defines "declared \<equiv> uint ((ucast (data m ! nat s) :: 16 word)
                              OR push_bit 8 (ucast (data m ! nat (s + 1))))"
  shows "parsePacket m s =
     (if s < 0 \<or> n < s then Panics
      else if n - s < 6 then Returns (packet0, Some (Errorf ''packet too short'' []))
      else if n - s < declared then Returns (packet0, Some (Errorf ''packet size too big'' []))
      else if declared < 2 then Panics
      else Returns (\<lparr>start = word_of_int s, totalLen = word_of_int declared, headerLen' = 0\<rparr>,
                    None))"
proof (cases "s < 0 \<or> n < s")
  case True
  then show ?thesis by (auto simp add: parsePacket_def go_slice_def n_def)
next
  case False
  then have s: "0 \<le> s" "s \<le> n" by simp_all
  have sl: "go_slice (data m) s (int (length (data m))) = Returns (drop (nat s) (data m))"
    using s by (simp add: go_slice_def n_def)
  have len: "int (length (drop (nat s) (data m))) = n - s"
    using s by (simp add: n_def)
  show ?thesis
  proof (cases "n - s < 6")
    case True
    then show ?thesis using False len by (simp add: parsePacket_def sl)
  next
    case long: False
    have nth0: "drop (nat s) (data m) ! 0 = data m ! nat s"
      using s long by (simp add: n_def)
    have nth1: "drop (nat s) (data m) ! 1 = data m ! nat (s + 1)"
      using s long by (simp add: n_def nat_add_distrib)
    have suc: "nat (s + 1) = Suc (nat s)"
      using s by simp
    have ps: "parseSize (drop (nat s) (data m)) = Returns declared"
      using long len
      by (simp add: parseSize_def LittleEndian_Uint16_def nth0 nth1 declared_def suc)
    have inner: "go_slice (drop (nat s) (data m)) 2 declared =
        (if declared < 2 then Panics
         else Returns (take (nat (declared - 2)) (drop 2 (drop (nat s) (data m)))))"
      if "\<not> n - s < declared"
      using that len by (simp add: go_slice_def)
    show ?thesis
      using False long len inner
      by (simp add: parsePacket_def sl ps)
  qed
qed

lemma UnmarshalBinary_sig:
  assumes "UnmarshalBinary m dat = Returns (m1, e)"
  shows "sig m1 = sig m \<and> data m1 = dat"
  using assms unmarshalBinaryNoCopy_data_sig [of m dat m1 e]
  by (simp add: UnmarshalBinary_def)

text \<open>
  \<open>Verify\<close> on a macaroon fresh from \<open>New\<close>: it returns nil only in case the keyed hash
  or SHA-256 has a fixed point at the signature.
\<close>

lemma Verify_New:
  assumes "New rootKey ident loc = Returns (Some m, None)"
  shows "Verify m rootKey =
     (if bindForRequest (keyedHash rootKey ident) (keyedHash (keyedHash rootKey ident) [])
         = keyedHash rootKey ident
      then Returns None
      else Returns (Some (Errorf ''signature mismatch after caveat verification'' [])))"
proof -
  from New_Some [OF assms] have l: "3 + int (length loc) \<le> 65535"
    and i: "3 + int (length ident) \<le> 65535" by simp_all
  note m = assms [unfolded New_ok [OF l i], simplified]
  have d: "data m = ([word_of_int ((3 + int (length loc)) mod 256),
                      word_of_int ((3 + int (length loc)) div 256), fieldLocation] @ loc)
                    @ [word_of_int ((3 + int (length ident)) mod 256),
                       word_of_int ((3 + int (length ident)) div 256), fieldIdentifier]
                    @ ident @ []"
    using m by auto
  have r: "int (length ([word_of_int ((3 + int (length loc)) mod 256),
                         word_of_int ((3 + int (length loc)) div 256), fieldLocation] @ loc))
           + 3 + int (length ident) < 2147483648"
    using l i by simp
  have p: "id' m = \<lparr>start = word_of_int (int (length
                        ([word_of_int ((3 + int (length loc)) mod 256),
                          word_of_int ((3 + int (length loc)) div 256), fieldLocation] @ loc))),
                    totalLen = word_of_int (3 + int (length ident)), headerLen' = 0\<rparr>"
    using m by (auto simp add: add.commute)
  have b1: "dataBytes m (id' m) = Returns ident"
    by (rule packet_in_buffer(1) [OF d i r p])
  have b2: "dataBytes m (caveats m) = Returns []"
    using m by (auto simp add: dataBytes_def packet0_def)
  have sg: "sig m = keyedHash rootKey ident"
    using m by auto
  have cs: "verify_caveatSig m rootKey = Returns (keyedHash (keyedHash rootKey ident) [])"
    unfolding verify_caveatSig_def
    by (simp only: b1 b2 outcome.case Let_def keyedHasher_chain take_0)
  show ?thesis
    by (simp add: Verify_eq verify_eq cs sg)
qed

section \<open>Claims about the packet codec\<close>

text \<open>
  Claim C9. Appending a packet fails exactly when \<open>3 + len(payload) > 65535\<close>; it then
  returns the zero packet and \<open>false\<close> and leaves the macaroon, and so its buffer,
  unchanged. Otherwise it succeeds: the buffer grows by the two bytes of the total length
  \<open>3 + len(payload)\<close> in little-endian order, the tag byte and the payload; the packet
  returned starts at the old end of the buffer and has that total length. Read back through
  the packet (which needs the new end of the buffer to fit the \<^verbatim>\<open>int32\<close> offset), these
  are the packet's bytes, its payload and its tag.
\<close>

theorem appendPacket_too_big_iff:
  "(snd (snd (appendPacket m f payload)) = False) = (3 + int (length payload) > 65535)
   \<and> (3 + int (length payload) > 65535 \<longrightarrow> appendPacket m f payload = (m, packet0, False))
   \<and> (3 + int (length payload) \<le> 65535 \<longrightarrow>
        (let n = 3 + int (length payload);
             written = [word_of_int (n mod 256), word_of_int (n div 256), f] @ payload;
             m1 = m\<lparr>data := data m @ written\<rparr>;
             p = \<lparr>start = word_of_int (int (length (data m))), totalLen = word_of_int n,
                  headerLen' = 0\<rparr>
         in appendPacket m f payload = (m1, p, True)
            \<and> packet_len p = n
            \<and> LittleEndian_Uint16 written = Returns (totalLen p)
            \<and> (int (length (data m)) + n < 2147483648 \<longrightarrow>
                 packetBytes m1 p = Returns written \<and> dataBytes m1 p = Returns payload
                 \<and> fieldNum m1 p = Returns f)))"
proof (cases "3 + int (length payload) > 65535")
  case True
  then show ?thesis by (simp add: appendPacket_too_big)
next
  case False
  let ?n = "3 + int (length payload)"
  let ?w = "[word_of_int (?n mod 256), word_of_int (?n div 256), f] @ payload"
  let ?p = "\<lparr>start = word_of_int (int (length (data m))), totalLen = word_of_int ?n,
             headerLen' = 0\<rparr>"
  let ?m1 = "m\<lparr>data := data m @ ?w\<rparr>"
  from False have le: "?n \<le> 65535" by simp
  have ap: "appendPacket m f payload = (?m1, ?p, True)"
    by (rule appendPacket_ok [OF le])
  have d: "data ?m1 = data m @ [word_of_int (?n mod 256), word_of_int (?n div 256), f] @ payload @ []"
    by simp
  have len: "packet_len ?p = ?n"
    unfolding packet_len_def using le
    by (simp only: packet.simps) (intro uint16_of_int, simp_all)
  have dec: "LittleEndian_Uint16 ?w = Returns (totalLen ?p)"
  proof -
    have "?w = LittleEndian_PutUint16 (word_of_int ?n) @ (f # payload)"
      using le PutUint16_bytes [of ?n] by simp
    then show ?thesis by (simp only: Uint16_PutUint16 packet.simps)
  qed
  have rd: "packetBytes ?m1 ?p = Returns ?w \<and> dataBytes ?m1 ?p = Returns payload
            \<and> fieldNum ?m1 ?p = Returns f"
    if r: "int (length (data m)) + ?n < 2147483648"
    using packet_in_buffer [OF d le _ refl] r by (simp add: add.assoc)
  show ?thesis
    using False le len dec rd by (simp add: ap Let_def)
qed

theorem appendPacket_too_big_iff_witness:
  "3 + int (length [1, 2 :: byte]) \<le> 65535
   \<and> appendPacket Macaroon0 fieldLocation [1, 2] =
       (Macaroon0\<lparr>data := [5, 0, 1, 1, 2]\<rparr>, \<lparr>start = 0, totalLen = 5, headerLen' = 0\<rparr>, True)
   \<and> packetBytes (Macaroon0\<lparr>data := [5, 0, 1, 1, 2]\<rparr>) \<lparr>start = 0, totalLen = 5, headerLen' = 0\<rparr>
       = Returns [5, 0, 1, 1, 2]
   \<and> 3 + int (length (replicate 65533 (0 :: byte))) > 65535
   \<and> appendPacket Macaroon0 fieldLocation (replicate 65533 0) = (Macaroon0, packet0, False)"
  using appendPacket_too_big_iff [of Macaroon0 fieldLocation "[1, 2]"]
        appendPacket_too_big_iff [of Macaroon0 fieldLocation "replicate 65533 0"]
  by (simp add: Let_def Macaroon0_def fieldLocation_def)

text \<open>
  Claim C8. Packet decoding is total: for every buffer and starting offset \<open>parsePacket\<close>
  returns a well-formed packet or an error, and never crashes. The code panics on a buffer
  of six zero bytes: the declared length 0 passes the two tests, and the slice expression
  \<^verbatim>\<open>data[2:plen]\<close> is then out of range. The same bytes given to \<open>UnmarshalBinary\<close>
  panic as well.
\<close>

theorem parsePacket_panics:
  "parsePacket (Macaroon0\<lparr>data := [0, 0, 0, 0, 0, 0]\<rparr>) 0 = Panics
   \<and> UnmarshalBinary Macaroon0 [0, 0, 0, 0, 0, 0] = Panics"
  by code_simp

section \<open>Claims about construction and verification\<close>

text \<open>
  Claim C10. When \<open>New\<close> succeeds and is followed by exactly one successful \<open>SetCaveats\<close>,
  \<open>Verify\<close> with the same root key returns nil: the signature that \<open>SetCaveats\<close> stores,
  the keyed hash of the caveat bytes under the previous signature, is the chain that
  \<open>verify\<close> recomputes from the root key, the identifier and the payload of the caveats
  packet.
\<close>

theorem Verify_after_SetCaveats:
  assumes n: "New rootKey ident loc = Returns (Some m, None)"
    and s: "SetCaveats m v = Returns (m1, None)"
  shows "verify_caveatSig m1 rootKey = Returns (sig m1) \<and> Verify m1 rootKey = Returns None"
proof -
  from New_Some [OF n] have l: "3 + int (length loc) \<le> 65535"
    and i: "3 + int (length ident) \<le> 65535" by simp_all
  from SetCaveats_None [OF s] obtain cav
    where mc: "MarshalCaveats v = Returns (cav, None)" and c: "3 + int (length cav) \<le> 65535"
    by blast
  note m = n [unfolded New_ok [OF l i], simplified]
  note m1 = s [unfolded SetCaveats_ok [OF mc c], simplified]
  have sg: "sig m1 = keyedHash (keyedHash rootKey ident) cav"
    using m m1 by auto
  have len: "int (length (data m)) = 6 + int (length loc) + int (length ident)"
    using m by auto
  have cs: "verify_caveatSig m1 rootKey = Returns (keyedHash (keyedHash rootKey ident) cav)"
  proof (rule verify_caveatSig_built [OF l i c])
    show "data m1 = [word_of_int ((3 + int (length loc)) mod 256),
                     word_of_int ((3 + int (length loc)) div 256), fieldLocation] @ loc
                  @ [word_of_int ((3 + int (length ident)) mod 256),
                     word_of_int ((3 + int (length ident)) div 256), fieldIdentifier] @ ident
                  @ [word_of_int ((3 + int (length cav)) mod 256),
                     word_of_int ((3 + int (length cav)) div 256), fieldCaveat] @ cav"
      using m m1 by auto
    show "id' m1 = \<lparr>start = word_of_int (3 + int (length loc)),
                     totalLen = word_of_int (3 + int (length ident)), headerLen' = 0\<rparr>"
      using m m1 by auto
    show "caveats m1 = \<lparr>start = word_of_int (6 + int (length loc) + int (length ident)),
                          totalLen = word_of_int (3 + int (length cav)), headerLen' = 0\<rparr>"
      using m m1 len by auto
  qed
  show ?thesis
    by (simp add: Verify_eq verify_eq cs sg bindForRequest_eq)
qed

theorem Verify_after_SetCaveats_witness:
  "New key0 [] [] = Returns (Some mac_new, None)
   \<and> SetCaveats mac_new (Struct []) = Returns (mac_cav, None)
   \<and> verify_caveatSig mac_cav key0 = Returns (sig mac_cav)
   \<and> Verify mac_cav key0 = Returns None"
  using New_key0 SetCaveats_mac_new Verify_after_SetCaveats [OF New_key0 SetCaveats_mac_new]
  by simp

text \<open>
  Claim C1. A macaroon that \<open>New\<close> has just returned, with nothing done to it since, is
  accepted by \<open>Verify\<close> under the same root key. The code rejects it: \<open>verify\<close> always
  chains one more keyed hash, over the payload of the (absent, hence empty) caveats packet,
  so the recomputed signature \<open>sig2\<close> is not the stored \<open>sig1\<close>, and the bound signature,
  the SHA-256 of the two, is not \<open>sig1\<close> either.
\<close>

theorem Verify_new_macaroon_rejected:
  "New key0 [] [] = Returns (Some mac_new, None)
   \<and> verify_caveatSig mac_new key0 = Returns sig2
   \<and> sig mac_new = sig1
   \<and> Verify mac_new key0 =
       Returns (Some (Errorf ''signature mismatch after caveat verification'' []))"
  by (simp only: New_key0 verify_caveatSig_mac_new sig_mac_new Verify_mac_new simp_thms)

text \<open>
  Claim C3, as stated, at the macaroon \<open>mac_cav\<close> with an empty root-signature parameter:
  \<open>verify\<close> returns nil, although \<open>bindForRequest\<close> of the parameter and the recomputed
  signature \<open>sig2\<close> differs from the stored signature.
\<close>

theorem verify_empty_rootSig_counterexample:
  "verify_caveatSig mac_cav key0 = Returns sig2
   \<and> \<not> ((verify mac_cav [] key0 =
           Returns (Some (Errorf ''signature mismatch after caveat verification'' [])))
          = (bindForRequest [] sig2 \<noteq> sig mac_cav))"
  using bindForRequest_nil_sig2
  by (simp add: verify_caveatSig_mac_cav verify_eq sig_mac_cav) (simp add: bindForRequest_eq)

text \<open>
  Claim C3, amended. \<open>verify\<close> fails with exactly the error
  \<open>signature mismatch after caveat verification\<close> if and only if the signature is
  recomputed (no packet lies outside the buffer) and
  \<open>bindForRequest(r, recomputedCaveatSig)\<close> differs from the stored signature, where
  \<open>r\<close> is the root-signature parameter, or the macaroon's own stored signature when the
  parameter is empty. It returns no other error, and the comparison (\<open>hmac.Equal\<close>) is
  equality of the byte strings. For a non-empty parameter, and for \<open>Verify\<close>, which passes
  the stored signature, \<open>r\<close> is the parameter itself.
\<close>

theorem verify_signature_mismatch_iff:
  "((verify m rootSig rootKey =
       Returns (Some (Errorf ''signature mismatch after caveat verification'' [])))
     = (\<exists>c. verify_caveatSig m rootKey = Returns c
            \<and> bindForRequest (if rootSig = [] then sig m else rootSig) c \<noteq> sig m))
   \<and> (\<forall>e. verify m rootSig rootKey = Returns (Some e)
            \<longrightarrow> e = Errorf ''signature mismatch after caveat verification'' [])
   \<and> (rootSig \<noteq> [] \<longrightarrow>
        (verify m rootSig rootKey =
           Returns (Some (Errorf ''signature mismatch after caveat verification'' [])))
        = (\<exists>c. verify_caveatSig m rootKey = Returns c \<and> bindForRequest rootSig c \<noteq> sig m))
   \<and> ((Verify m rootKey =
          Returns (Some (Errorf ''signature mismatch after caveat verification'' [])))
        = (\<exists>c. verify_caveatSig m rootKey = Returns c \<and> bindForRequest (sig m) c \<noteq> sig m))
   \<and> hmac_Equal a b = (a = b)"
  by (cases "verify_caveatSig m rootKey")
     (simp_all add: Verify_eq verify_eq hmac_Equal_iff)

theorem verify_signature_mismatch_iff_witness:
  "verify mac_new sig1 key0 =
     Returns (Some (Errorf ''signature mismatch after caveat verification'' []))
   \<and> sig1 \<noteq> []
   \<and> verify_caveatSig mac_new key0 = Returns sig2
   \<and> bindForRequest sig1 sig2 \<noteq> sig mac_new"
proof -
  note at_input = verify_signature_mismatch_iff [of mac_new sig1 key0 sig1 sig2]
  note nonempty = at_input [THEN conjunct2, THEN conjunct2, THEN conjunct1]
  have "(verify mac_new sig1 key0 =
           Returns (Some (Errorf ''signature mismatch after caveat verification'' [])))
        = (\<exists>c. verify_caveatSig mac_new key0 = Returns c \<and> bindForRequest sig1 c \<noteq> sig mac_new)"
    by (rule nonempty [rule_format, OF sig1_nonempty])
  then show ?thesis
    using bindForRequest_sig1_sig2
    by (simp add: verify_caveatSig_mac_new sig_mac_new sig1_nonempty)
qed

text \<open>
  Claim C4. \<open>bindForRequest\<close> returns the root signature unchanged when the two signatures
  are equal as byte strings, and otherwise the SHA-256 of the root signature followed by the
  discharge signature; \<open>Bind(sig)\<close> replaces the stored signature by
  \<open>bindForRequest(sig, storedSignature)\<close> and changes nothing else.
\<close>

theorem bindForRequest_Bind:
  "(rootSig = dischargeSig \<longrightarrow> bindForRequest rootSig dischargeSig = rootSig)
   \<and> (rootSig \<noteq> dischargeSig \<longrightarrow>
        bindForRequest rootSig dischargeSig = sha256 (rootSig @ dischargeSig))
   \<and> Bind m sg = m\<lparr>sig := bindForRequest sg (sig m)\<rparr>
   \<and> sig (Bind m sg) = bindForRequest sg (sig m)"
  by (simp add: bindForRequest_eq Bind_def)

theorem bindForRequest_Bind_witness:
  "sig1 \<noteq> sig2
   \<and> bindForRequest sig1 sig2 = sha256 (sig1 @ sig2)
   \<and> bindForRequest sig1 sig1 = sig1
   \<and> sig (Bind mac_new sig2) = sha256 (sig2 @ sig1)
   \<and> sig (Bind mac_new sig1) = sig1"
  using bindForRequest_Bind [of sig1 sig2 mac_new sig2]
        bindForRequest_Bind [of sig1 sig1 mac_new sig1]
        bindForRequest_Bind [of sig2 sig1 mac_new sig1]
        sig1_neq_sig2
  by (auto simp add: sig_mac_new)

text \<open>
  Claim C2, as stated, at the primary macaroon \<open>mac_cav\<close> accompanied by the macaroon
  \<open>mac_new\<close> (identifier \<open>""\<close>) as a discharge: the verification of the primary's node
  succeeds and nothing uses the discharge (\<open>Verify\<close> takes the root key only, so a
  discharge can only sit beside the primary, as in a \<open>Slice\<close>); the result is nil, not the
  error \<open>discharge macaroon "" was not used\<close>.
\<close>

theorem Verify_unused_discharge_counterexample:
  "Id' mac_new = Returns []
   \<and> verify mac_cav (sig mac_cav) key0 = Returns None
   \<and> Verify mac_cav key0 = Returns None
   \<and> Verify mac_cav key0 \<noteq>
       Returns (Some (Errorf ''discharge macaroon %q was not used'' [ArgBytes []]))"
  using Verify_mac_cav
  by (simp add: Id'_def dataStr_def dataBytes_mac_new Verify_eq)

text \<open>
  Claim C2, amended. \<open>Verify\<close> takes the macaroon and the root key and nothing else: no
  discharge macaroons are supplied to it and no use of them is recorded. It is \<open>verify\<close>
  with the macaroon's own signature as root signature, and it returns nil or the one error
  \<open>signature mismatch after caveat verification\<close> (or panics, when a packet of the
  macaroon lies outside its buffer); in particular it returns neither
  \<open>discharge macaroon ... was not used\<close> nor \<open>... was used more than once\<close>.
\<close>

theorem Verify_outcomes:
  "Verify m rootKey = verify m (sig m) rootKey
   \<and> (Verify m rootKey = Panics
        \<or> Verify m rootKey = Returns None
        \<or> Verify m rootKey =
            Returns (Some (Errorf ''signature mismatch after caveat verification'' [])))
   \<and> Verify m rootKey \<noteq> Returns (Some (Errorf ''discharge macaroon %q was not used'' args))
   \<and> Verify m rootKey \<noteq>
       Returns (Some (Errorf ''discharge macaroon %q was used more than once'' args))"
  by (cases "verify_caveatSig m rootKey") (simp_all add: Verify_eq verify_eq)

theorem Verify_outcomes_witness:
  "Verify mac_cav key0 = Returns None
   \<and> Verify mac_new key0 =
       Returns (Some (Errorf ''signature mismatch after caveat verification'' []))"
  using Verify_outcomes [of mac_cav key0] Verify_outcomes [of mac_new key0]
  by (simp only: Verify_mac_cav Verify_mac_new simp_thms)

section \<open>Claims about marshalling\<close>

text \<open>
  Claim C5. For a macaroon whose binary marshalling succeeds, unmarshalling the bytes gives
  a macaroon with the same location, identifier, signature and caveats, and marshalling
  that again gives the same bytes. For \<open>mac_cav\<close> the code returns a macaroon whose
  buffer is the whole input, signature packet included, and whose signature is empty;
  marshalling it appends one more, empty, signature packet. For \<open>mac_new\<close>, which has no
  caveats packet, unmarshalling its own binary form fails.
\<close>

theorem UnmarshalBinary_loses_signature:
  "MarshalBinary mac_cav = (wire_cav, None)
   \<and> UnmarshalBinary Macaroon0 wire_cav = Returns (mac_cav\<lparr>data := wire_cav, sig := []\<rparr>, None)
   \<and> sig mac_cav = sig2
   \<and> MarshalBinary (mac_cav\<lparr>data := wire_cav, sig := []\<rparr>) = (wire_cav @ [3, 0, 3], None)
   \<and> MarshalBinary mac_new = ([3, 0, 1, 3, 0, 2, 35, 0, 3] @ sig1, None)
   \<and> UnmarshalBinary Macaroon0 ([3, 0, 1, 3, 0, 2, 35, 0, 3] @ sig1) =
       Returns (Macaroon0\<lparr>data := [3, 0, 1, 3, 0, 2, 35, 0, 3] @ sig1,
                            location := \<lparr>start = 0, totalLen = 3, headerLen' = 0\<rparr>,
                            id' := \<lparr>start = 3, totalLen = 3, headerLen' = 0\<rparr>\<rparr>,
                Some (Errorf ''unexpected field %v; expected %s''
                        [ArgField fieldSignature, ArgField fieldCaveat]))"
  by code_simp

text \<open>
  Claim C6. After \<open>Slice.UnmarshalBinary\<close> has produced macaroons that share one buffer,
  appending to element 0 changes nothing of element 1 and the later elements. The code
  never gets that far: on the binary form of a slice of two macaroons it panics, whatever
  capacity the copy of the input has, because \<open>unmarshalBinaryNoCopy\<close> leaves the whole
  input in \<open>m.data\<close> and \<open>m.marshalBinaryLen()\<close> is then three more than what is left of
  the input.
\<close>

theorem Slice_UnmarshalBinary_panics:
  "Slice_MarshalBinary [mac_cav, mac_cav] = Returns (wire_cav @ wire_cav, None)
   \<and> Slice_UnmarshalBinary (wire_cav @ wire_cav) spare = Panics"
proof -
  have "Slice_MarshalBinary [mac_cav, mac_cav] = Returns (wire_cav @ wire_cav, None)"
    by code_simp
  moreover have "unmarshalBinaryNoCopy Macaroon0 (wire_cav @ wire_cav) =
      Returns (mac_cav\<lparr>data := wire_cav @ wire_cav, sig := []\<rparr>, None)"
    by code_simp
  moreover have "marshalBinaryLen (mac_cav\<lparr>data := wire_cav @ wire_cav, sig := []\<rparr>)
      = int (length (wire_cav @ wire_cav)) + 3"
    by (simp add: marshalBinaryLen_def packetSize_def)
  moreover have "wire_cav @ wire_cav \<noteq> []"
    by (simp add: wire_cav_def)
  ultimately show ?thesis
    by (simp add: Slice_UnmarshalBinary_def)
qed

section \<open>Claims about the signature\<close>

text \<open>
  Claim C7, as stated, for JSON unmarshalling: the JSON object with empty location,
  identifier and caveats and the signature \<^verbatim>\<open>"ab"\<close> is accepted, and the macaroon it
  yields has a signature of one byte.
\<close>

theorem UnmarshalJSON_signature_length_counterexample:
  "UnmarshalJSON Macaroon0
     (\<lparr>Caveats = [], Location_json = [], Identifier = [], Signature_json = [0x61, 0x62]\<rparr>, None)
   = (mac_cav\<lparr>sig := [0xab]\<rparr>, None)
   \<and> length (sig (mac_cav\<lparr>sig := [0xab]\<rparr>)) = 1
   \<and> length (sig (mac_cav\<lparr>sig := [0xab]\<rparr>)) \<noteq> 32"
  by (simp add: UnmarshalJSON_ab)

text \<open>
  Claim C7, amended. \<open>New\<close> and a successful \<open>SetCaveats\<close> leave a signature of exactly
  32 bytes, the length of the keyed hash (HMAC-SHA-256); a failed \<open>SetCaveats\<close> leaves the
  signature as it was. \<open>Bind(sig)\<close> leaves a signature of 32 bytes when \<open>sig\<close> differs
  from the stored signature, and leaves the stored signature's length unchanged when they
  are equal. \<open>UnmarshalJSON\<close> does not check the length: on success the stored signature
  is whatever the hexadecimal \<open>signature\<close> string decodes to, half as many bytes as the
  string has characters. (Nothing is said of binary unmarshalling.)
\<close>

theorem signature_length:
  "(New rootKey ident loc = Returns (Some m, None) \<longrightarrow> length (sig m) = 32)
   \<and> (SetCaveats m1 v = Returns (m2, None) \<longrightarrow> length (sig m2) = 32)
   \<and> (SetCaveats m1 v = Returns (m2, Some err) \<longrightarrow> sig m2 = sig m1)
   \<and> length (sig (Bind m3 sg)) = (if sg = sig m3 then length (sig m3) else 32)
   \<and> (UnmarshalJSON m4 (mjson, None) = (m5, None) \<longrightarrow>
        hex_DecodeString (Signature_json mjson) = (sig m5, None)
        \<and> length (Signature_json mjson) = 2 * length (sig m5))"
proof (intro conjI impI)
  assume "New rootKey ident loc = Returns (Some m, None)"
  then show "length (sig m) = 32"
    by (simp add: New_sig length_keyedHash)
next
  assume "SetCaveats m1 v = Returns (m2, None)"
  from SetCaveats_sig [OF this] show "length (sig m2) = 32"
    by (auto simp add: length_keyedHash)
next
  assume "SetCaveats m1 v = Returns (m2, Some err)"
  then show "sig m2 = sig m1"
    by (auto simp add: SetCaveats_def Let_def
        split: outcome.splits prod.splits if_splits dest!: appendPacket_sig)
next
  show "length (sig (Bind m3 sg)) = (if sg = sig m3 then length (sig m3) else 32)"
    by (simp add: Bind_def bindForRequest_eq length_sha256)
next
  assume u: "UnmarshalJSON m4 (mjson, None) = (m5, None)"
  show "hex_DecodeString (Signature_json mjson) = (sig m5, None)"
    by (rule UnmarshalJSON_sig [OF u])
  then show "length (Signature_json mjson) = 2 * length (sig m5)"
    by (rule hex_DecodeString_length)
qed

theorem signature_length_witness:
  "New key0 [] [] = Returns (Some mac_new, None) \<and> length (sig mac_new) = 32
   \<and> SetCaveats mac_new (Struct []) = Returns (mac_cav, None) \<and> length (sig mac_cav) = 32
   \<and> length (sig (Bind mac_new sig2)) = 32
   \<and> UnmarshalJSON Macaroon0
        (\<lparr>Caveats = [], Location_json = [], Identifier = [], Signature_json = [0x61, 0x62]\<rparr>, None)
      = (mac_cav\<lparr>sig := [0xab]\<rparr>, None)
   \<and> hex_DecodeString [0x61, 0x62] = ([0xab], None)"
  using signature_length [of key0 "[]" "[]" mac_new mac_new "Struct []" mac_cav hex_ErrLength
          mac_new sig2 Macaroon0
          "\<lparr>Caveats = [], Location_json = [], Identifier = [], Signature_json = [0x61, 0x62]\<rparr>"
          "mac_cav\<lparr>sig := [0xab]\<rparr>"]
        sig1_neq_sig2
  by (simp add: New_key0 SetCaveats_mac_new UnmarshalJSON_ab sig_mac_new)

end
